theory Spec2Isabelle
  imports Main
begin

section \<open>Go library values used by the server\<close>

subsection \<open>Durations\<close>

text \<open>
  \<^verbatim>\<open>time.Duration\<close> counts nanoseconds in an int64. The only durations of the source are
  the constants \<^verbatim>\<open>30*time.Minute\<close>, \<^verbatim>\<open>24*time.Hour\<close> and \<^verbatim>\<open>2*time.Minute\<close>, all far
  below \<open>2^63\<close>, so they are integers here.
\<close>

type_synonym duration = int

definition Second :: duration where
  "Second = 1000000000"

definition Minute :: duration where
  "Minute = 60 * Second"

definition Hour :: duration where
  "Hour = 60 * Minute"

subsection \<open>Strings of the environment\<close>

text \<open>
  \<^verbatim>\<open>strings.TrimSpace\<close> and \<^verbatim>\<open>strings.ToLower\<close> work on the code points of a string, so
  the value of an environment variable is a list of code points. White space is what
  \<^verbatim>\<open>unicode.IsSpace\<close> accepts. Lower-casing of code points beyond ASCII is a table of the
  Go library; it is the parameter \<open>lo\<close>.
\<close>

type_synonym rune = nat

definition runes :: "string \<Rightarrow> rune list" where
  "runes s = map of_char s"

definition isSpace :: "rune \<Rightarrow> bool" where
  "isSpace r \<longleftrightarrow>
     (9 \<le> r \<and> r \<le> 13) \<or> r = 32 \<or> r = 133 \<or> r = 160 \<or> r = 5760 \<or>
     (8192 \<le> r \<and> r \<le> 8202) \<or> r = 8232 \<or> r = 8233 \<or> r = 8239 \<or> r = 8287 \<or>
     r = 12288"

definition TrimSpace :: "rune list \<Rightarrow> rune list" where
  "TrimSpace s = rev (dropWhile isSpace (rev (dropWhile isSpace s)))"

definition toLowerRune :: "(rune \<Rightarrow> rune) \<Rightarrow> rune \<Rightarrow> rune" where
  "toLowerRune lo r =
     (if r < 128 then (if 65 \<le> r \<and> r \<le> 90 then r + 32 else r) else lo r)"

definition ToLower :: "(rune \<Rightarrow> rune) \<Rightarrow> rune list \<Rightarrow> rune list" where
  "ToLower lo s = map (toLowerRune lo) s"

subsection \<open>HTTP requests, responses and handlers\<close>

record http_request =
  Method :: string
  URLPath :: string
  Host :: string
  Origin :: "string option"
  Authorization :: "string option"

record http_response =
  Status :: nat
  Headers :: "(string \<times> string) list"

text \<open>
  A handler answers a request. Beside the response it returns the instrumentation log:
  the names of the components that were invoked for this request, in order.
\<close>

type_synonym http_handler = "http_request \<Rightarrow> string list \<times> http_response"

text \<open>\<^verbatim>\<open>type Middleware func(http.Handler) http.Handler\<close>\<close>

type_synonym Middleware = "http_handler \<Rightarrow> http_handler"

subsection \<open>The request multiplexer\<close>

text \<open>
  \<^verbatim>\<open>mux.Handle\<close> panics on an empty pattern, on a nil handler, on a pattern that does not
  parse and on a pattern that conflicts with a registered one. Parsing and conflict
  detection are net/http's; they are the parameters \<open>validPattern\<close> and \<open>conflicts\<close>
  of the record \<open>deps\<close> below. An entry of the multiplexer is a mounted handler, or the
  closure of the root redirect, which reads the server when a request arrives.
\<close>

datatype mux_entry = Mounted http_handler | RootRedirect

datatype panic =
    InvalidPattern string
  | NilHandler string
  | PatternConflict string string

type_synonym ServeMux = "(string \<times> mux_entry) list"

subsection \<open>The BFF auth store and the transports\<close>

text \<open>
  \<^verbatim>\<open>streamauth.NewMemoryStore\<close>, \<^verbatim>\<open>sse.New\<close> and \<^verbatim>\<open>streamable.New\<close> belong to the module
  github.com/eberle1080/jsonrpc. The values they build are kept as the constructor calls
  of the source, arguments in the source's order.
\<close>

datatype MemoryStore = NewMemoryStore duration duration duration

datatype SessionStore = SessionStore nat

record BFFAuthCookie =
  Name :: string
  HttpOnly :: bool

datatype sse_Option =
    sse_WithURI string
  | sse_WithMessageURI string
  | sse_WithAuthStore MemoryStore
  | sse_WithBFFAuthCookie BFFAuthCookie
  | sse_WithRehydrateOnHandshake bool
  | sse_WithSessionStore SessionStore

datatype streamable_Option =
    streamable_WithURI string
  | streamable_WithAuthStore MemoryStore
  | streamable_WithBFFAuthCookie BFFAuthCookie
  | streamable_WithRehydrateOnHandshake bool
  | streamable_WithSessionStore SessionStore

text \<open>The first argument of both constructors is always \<^verbatim>\<open>s.NewHandler\<close>; it is left out.\<close>

datatype sse_Handler = sse_New "sse_Option list"

datatype streamable_Handler = streamable_New "streamable_Option list"

subsection \<open>What the server takes from outside its sources\<close>

record deps =
  unicodeToLower :: "rune \<Rightarrow> rune"
  validPattern :: "string \<Rightarrow> bool"
  conflicts :: "string \<Rightarrow> string \<Rightarrow> bool"
  sseServeHTTP :: "sse_Handler \<Rightarrow> http_handler"
  streamableServeHTTP :: "streamable_Handler \<Rightarrow> http_handler"
  protocolVersionMiddleware :: Middleware

section \<open>The server\<close>

record CORSConfig =
  AllowOrigins :: "string list"

text \<open>
  The fields of \<^verbatim>\<open>httpServer\<close>, followed by the fields of \<^verbatim>\<open>Server\<close> that \<^verbatim>\<open>HTTP\<close> reads
  (\<^verbatim>\<open>Server\<close> is declared outside the sources). A Go map is iterated in an unspecified
  order: \<open>customHTTPHandlers\<close> is the list of its entries in the order of the iteration,
  a nil \<^verbatim>\<open>http.HandlerFunc\<close> being \<open>None\<close>.
\<close>

record Server =
  sseHandler :: "sse_Handler option"
  streamingHandler :: "streamable_Handler option"
  useStreamableHTTP :: bool
  addr :: string
  customHTTPHandlers :: "(string \<times> http_handler option) list"
  sseURI :: string
  sseMessageURI :: string
  streamableURI :: string
  rootRedirect :: bool
  sessionStore :: "SessionStore option"
  protectedResourcesHandler :: "http_handler option"
  authorizer :: "Middleware option"
  corsHandler :: Middleware
  corsConfig :: "CORSConfig option"

record http_Server =
  Addr :: string
  Handler :: ServeMux

text \<open>
  The state of the process that \<^verbatim>\<open>HTTP\<close> reads and writes: the environment variable
  \<^verbatim>\<open>MCP_DEBUG\<close> (unset reads as the empty string), the \<^verbatim>\<open>sync.Once\<close> and the value of
  \<^verbatim>\<open>srvDbg\<close>, the two defaults of the package mcpauth, and the standard output.
\<close>

record process =
  MCP_DEBUG :: "rune list"
  srvDbg_once :: bool
  srvDbg_v :: bool
  defaultBFFAuthStore :: "MemoryStore option"
  defaultBFFAuthCookieName :: "string option"
  stdout :: "string list"

definition UseStreamableHTTP :: "bool \<Rightarrow> Server \<Rightarrow> Server" where
  "UseStreamableHTTP flag s = s\<lparr>useStreamableHTTP := flag\<rparr>"

subsection \<open>serverDebug\<close>

definition debugValue :: "deps \<Rightarrow> rune list \<Rightarrow> bool" where
  "debugValue D e =
     (let v = ToLower (unicodeToLower D) (TrimSpace e)
      in v \<noteq> [] \<and> v \<noteq> runes ''0'' \<and> v \<noteq> runes ''false'')"

definition serverDebug :: "deps \<Rightarrow> process \<Rightarrow> bool \<times> process" where
  "serverDebug D P =
     (if srvDbg_once P then (srvDbg_v P, P)
      else (debugValue D (MCP_DEBUG P),
            P\<lparr>srvDbg_once := True, srvDbg_v := debugValue D (MCP_DEBUG P)\<rparr>))"

subsection \<open>The defaults of the package mcpauth\<close>

text \<open>
  Modelled from the spec: \<^verbatim>\<open>mcpauth.SetDefaultBFFAuthStore\<close> and
  \<^verbatim>\<open>mcpauth.SetDefaultBFFAuthCookieName\<close> are not among the sources. The spec calls the
  store process-wide state; each setter records its argument as the process-wide default.
\<close>

definition SetDefaultBFFAuthStore :: "MemoryStore \<Rightarrow> process \<Rightarrow> process" where
  "SetDefaultBFFAuthStore st P = P\<lparr>defaultBFFAuthStore := Some st\<rparr>"

definition SetDefaultBFFAuthCookieName :: "string \<Rightarrow> process \<Rightarrow> process" where
  "SetDefaultBFFAuthCookieName n P = P\<lparr>defaultBFFAuthCookieName := Some n\<rparr>"

subsection \<open>Middleware\<close>

text \<open>
  Modelled from the spec: \<^verbatim>\<open>ChainMiddlewareHandlers\<close> is not among the sources. The spec:
  applied left to right so the first middleware sees the request first and the last
  middleware's decision is closest to the real handler.
\<close>

definition ChainMiddlewareHandlers :: "http_handler \<Rightarrow> Middleware list \<Rightarrow> http_handler" where
  "ChainMiddlewareHandlers h ms = foldr (\<lambda>m next. m next) ms h"

definition crossOrigin :: "http_request \<Rightarrow> bool" where
  "crossOrigin r =
     (case Origin r of
        None \<Rightarrow> False
      | Some origin \<Rightarrow> origin \<noteq> ''http://'' @ Host r \<and> origin \<noteq> ''https://'' @ Host r)"

text \<open>
  Modelled from the spec: \<^verbatim>\<open>originValidationMiddleware\<close> is not among the sources. The
  spec: origin validation (reject cross-origin unless allow-listed); a middleware either
  passes the request on or short-circuits with a final response. It logs its invocation.
\<close>

definition originValidationMiddleware :: "string list \<Rightarrow> Middleware" where
  "originValidationMiddleware allowOrigins next r =
     (if crossOrigin r \<and> the (Origin r) \<notin> set allowOrigins
      then ([''originValidation''], \<lparr>Status = 403, Headers = []\<rparr>)
      else (''originValidation'' # fst (next r), snd (next r)))"

subsection \<open>HTTP\<close>

definition resolveAddr :: "Server \<Rightarrow> string \<Rightarrow> string" where
  "resolveAddr s a =
     (let a1 = (if a = [] then addr s else a)
      in if a1 = [] then ''127.0.0.1:5000'' else a1)"

definition defaultURIs :: "Server \<Rightarrow> Server" where
  "defaultURIs s =
     (let s1 = (if sseURI s = [] then s\<lparr>sseURI := ''/sse''\<rparr> else s);
          s2 = (if sseMessageURI s1 = [] then s1\<lparr>sseMessageURI := ''/message''\<rparr> else s1)
      in if streamableURI s2 = [] then s2\<lparr>streamableURI := ''/mcp''\<rparr> else s2)"

definition memAuth :: MemoryStore where
  "memAuth = NewMemoryStore (30 * Minute) (24 * Hour) (2 * Minute)"

definition Printf :: "string \<Rightarrow> process \<Rightarrow> process" where
  "Printf line P = P\<lparr>stdout := stdout P @ [line]\<rparr>"

definition addrLine :: "string \<Rightarrow> Server \<Rightarrow> string" where
  "addrLine a s =
     ''[mcp/server] HTTP addr='' @ a @ '' sseURI='' @ sseURI s @ '' msgURI='' @ sseMessageURI s
       @ '' streamURI='' @ streamableURI s @ [CHR 0x0A]"

definition bffLine :: string where
  "bffLine =
     ''[mcp/server] BFF auth: memStore=yes authCookie=BFF-Auth-Session rehydrate=true''
       @ [CHR 0x0A]"

definition logStartup :: "deps \<Rightarrow> string \<Rightarrow> Server \<Rightarrow> process \<Rightarrow> process" where
  "logStartup D a s P =
     (let r1 = serverDebug D P;
          P1 = (if fst r1 then Printf (addrLine a s) (snd r1) else snd r1);
          r2 = serverDebug D P1
      in if fst r2 then Printf bffLine (snd r2) else snd r2)"

definition sseOptions :: "Server \<Rightarrow> sse_Option list" where
  "sseOptions s =
     [sse_WithURI (sseURI s),
      sse_WithMessageURI (sseMessageURI s),
      sse_WithAuthStore memAuth,
      sse_WithBFFAuthCookie \<lparr>Name = ''BFF-Auth-Session'', HttpOnly = True\<rparr>,
      sse_WithRehydrateOnHandshake True]
     @ (case sessionStore s of None \<Rightarrow> [] | Some ss \<Rightarrow> [sse_WithSessionStore ss])"

definition streamableOptions :: "Server \<Rightarrow> streamable_Option list" where
  "streamableOptions s =
     [streamable_WithURI (streamableURI s),
      streamable_WithAuthStore memAuth,
      streamable_WithBFFAuthCookie \<lparr>Name = ''BFF-Auth-Session'', HttpOnly = True\<rparr>,
      streamable_WithRehydrateOnHandshake True]
     @ (case sessionStore s of None \<Rightarrow> [] | Some ss \<Rightarrow> [streamable_WithSessionStore ss])"

definition newHandlers :: "Server \<Rightarrow> Server" where
  "newHandlers s =
     s\<lparr>sseHandler := Some (sse_New (sseOptions s)),
       streamingHandler := Some (streamable_New (streamableOptions s))\<rparr>"

definition Handle :: "deps \<Rightarrow> ServeMux \<Rightarrow> string \<Rightarrow> mux_entry option \<Rightarrow> panic + ServeMux" where
  "Handle D mux pattern h =
     (if pattern = [] then Inl (InvalidPattern pattern)
      else if h = None then Inl (NilHandler pattern)
      else if \<not> validPattern D pattern then Inl (InvalidPattern pattern)
      else case find (\<lambda>e. conflicts D pattern (fst e)) mux of
             Some e \<Rightarrow> Inl (PatternConflict pattern (fst e))
           | None \<Rightarrow> Inr (mux @ [(pattern, the h)]))"

fun handleCustom :: "deps \<Rightarrow> ServeMux \<Rightarrow> (string \<times> http_handler option) list \<Rightarrow> panic + ServeMux" where
  "handleCustom D mux [] = Inr mux"
| "handleCustom D mux ((path, handler) # rest) =
     (case Handle D mux path (map_option Mounted handler) of
        Inl e \<Rightarrow> Inl e
      | Inr mux' \<Rightarrow> handleCustom D mux' rest)"

definition wellKnown :: string where
  "wellKnown = ''/.well-known/oauth-protected-resource''"

definition handleProtectedResources :: "deps \<Rightarrow> Server \<Rightarrow> ServeMux \<Rightarrow> panic + ServeMux" where
  "handleProtectedResources D s mux =
     (case protectedResourcesHandler s of
        None \<Rightarrow> Inr mux
      | Some h \<Rightarrow> Handle D mux wellKnown (Some (Mounted h)))"

definition middlewareHandlers :: "deps \<Rightarrow> Server \<Rightarrow> Middleware list" where
  "middlewareHandlers D s =
     (case authorizer s of None \<Rightarrow> [] | Some a \<Rightarrow> [a])
     @ [protocolVersionMiddleware D]
     @ [corsHandler s]
     @ (case corsConfig s of
          None \<Rightarrow> []
        | Some c \<Rightarrow> [originValidationMiddleware (AllowOrigins c)])"

definition sseChain :: "deps \<Rightarrow> Server \<Rightarrow> http_handler" where
  "sseChain D s =
     ChainMiddlewareHandlers (sseServeHTTP D (the (sseHandler s))) (middlewareHandlers D s)"

definition streamChain :: "deps \<Rightarrow> Server \<Rightarrow> http_handler" where
  "streamChain D s =
     ChainMiddlewareHandlers (streamableServeHTTP D (the (streamingHandler s)))
       (middlewareHandlers D s)"

definition andThen :: "panic + ServeMux \<Rightarrow> (ServeMux \<Rightarrow> panic + ServeMux) \<Rightarrow> panic + ServeMux" where
  "andThen r f = (case r of Inl e \<Rightarrow> Inl e | Inr mux \<Rightarrow> f mux)"

definition handleRoot :: "deps \<Rightarrow> Server \<Rightarrow> ServeMux \<Rightarrow> panic + ServeMux" where
  "handleRoot D s mux =
     (if rootRedirect s then Handle D mux ''/'' (Some RootRedirect) else Inr mux)"

definition buildMux :: "deps \<Rightarrow> Server \<Rightarrow> panic + ServeMux" where
  "buildMux D s =
     andThen (andThen (andThen (andThen (andThen
       (handleCustom D [] (customHTTPHandlers s))
       (handleProtectedResources D s))
       (\<lambda>mux. Handle D mux (sseURI s) (Some (Mounted (sseChain D s)))))
       (\<lambda>mux. Handle D mux (sseMessageURI s) (Some (Mounted (sseChain D s)))))
       (\<lambda>mux. Handle D mux (streamableURI s) (Some (Mounted (streamChain D s)))))
       (handleRoot D s)"

text \<open>
  \<^verbatim>\<open>HTTP\<close> returns the \<^verbatim>\<open>http.Server\<close> together with the server it has updated through
  its pointer receiver, or the panic of \<^verbatim>\<open>mux.Handle\<close>; the process is updated in both
  cases, since the defaults are installed and the lines printed before the first
  registration.
\<close>

definition HTTP :: "deps \<Rightarrow> Server \<Rightarrow> string \<Rightarrow> process \<Rightarrow> (panic + http_Server \<times> Server) \<times> process" where
  "HTTP D s a P =
     (let a' = resolveAddr s a;
          s1 = defaultURIs s;
          P1 = SetDefaultBFFAuthCookieName ''BFF-Auth-Session'' (SetDefaultBFFAuthStore memAuth P);
          P2 = logStartup D a' s1 P1;
          s2 = newHandlers s1
      in (case buildMux D s2 of
            Inl e \<Rightarrow> Inl e
          | Inr mux \<Rightarrow> Inr (\<lparr>Addr = a', Handler = mux\<rparr>, s2),
          P2))"

text \<open>
  The closure of the root redirect reads the server when a request arrives: this is the
  target it hands to \<^verbatim>\<open>http.Redirect\<close>, with \<^verbatim>\<open>http.StatusTemporaryRedirect\<close>. What
  \<^verbatim>\<open>http.Redirect\<close> then writes is net/http's.
\<close>

definition redirectTarget :: "Server \<Rightarrow> string" where
  "redirectTarget s = (if useStreamableHTTP s then streamableURI s else sseURI s)"

text \<open>
  The registrations of \<^verbatim>\<open>HTTP\<close>, in the order of the source: the custom handlers, the
  protected-resource document, the two transports, the root redirect.
\<close>

definition customEntries :: "Server \<Rightarrow> ServeMux" where
  "customEntries s = map (\<lambda>c. (fst c, Mounted (the (snd c)))) (customHTTPHandlers s)"

definition protectedEntries :: "Server \<Rightarrow> ServeMux" where
  "protectedEntries s =
     (case protectedResourcesHandler s of None \<Rightarrow> [] | Some h \<Rightarrow> [(wellKnown, Mounted h)])"

definition transportEntries :: "deps \<Rightarrow> Server \<Rightarrow> ServeMux" where
  "transportEntries D s =
     [(sseURI s, Mounted (sseChain D s)),
      (sseMessageURI s, Mounted (sseChain D s)),
      (streamableURI s, Mounted (streamChain D s))]"

definition rootEntries :: "Server \<Rightarrow> ServeMux" where
  "rootEntries s = (if rootRedirect s then [(''/'', RootRedirect)] else [])"

text \<open>
  Reading a result of \<^verbatim>\<open>HTTP\<close>: the patterns registered with the multiplexer, in the
  order of their registration, and the answer of the handler mounted first under a
  pattern (the root redirect, whose answer \<^verbatim>\<open>http.Redirect\<close> writes, has none here).
\<close>

definition patterns :: "panic + http_Server \<times> Server \<Rightarrow> string list" where
  "patterns res = (case res of Inl e \<Rightarrow> [] | Inr (srv, s) \<Rightarrow> map fst (Handler srv))"


section \<open>The Auth Grant Store\<close>

text \<open>
  The store that \<^verbatim>\<open>HTTP\<close> builds is implemented in the module
  github.com/eberle1080/jsonrpc; the sources hold the constructor call only. The
  definitions of this section follow the contract of the spec.
\<close>

datatype grant_state = Pending | Active | Expired | Revoked

record AuthGrant =
  grantID :: nat
  subject :: string
  accessCredential :: string
  refreshCredential :: string
  pendingExpiry :: int
  accessExpiry :: int
  refreshExpiry :: int
  state :: grant_state

datatype SessionError = ErrNotFound | ErrExpired | ErrRevoked

record GrantStore =
  pendingDuration :: duration
  accessDuration :: duration
  refreshDuration :: duration
  grants :: "nat \<Rightarrow> AuthGrant option"
  nextId :: nat

text \<open>
  Modelled from the spec: the body of \<^verbatim>\<open>NewMemoryStore\<close> is missing. The spec gives the
  durations of the store as 2 min (pending), 30 min (access) and 24 h (refresh); the call
  of the source passes 30 min, 24 h and 2 min, so the first argument is read as the access
  duration, the second as the refresh duration and the third as the pending duration.
  A new store holds no grant.
\<close>

fun openStore :: "MemoryStore \<Rightarrow> GrantStore" where
  "openStore (NewMemoryStore access refresh pending) =
     \<lparr>pendingDuration = pending, accessDuration = access, refreshDuration = refresh,
      grants = (\<lambda>_. None), nextId = 0\<rparr>"

text \<open>
  Modelled from the spec: \<^verbatim>\<open>Create(subject) -> AuthGrant\<close>, state Pending, all three
  expiries set from the configured durations. The credentials of the grant are further
  arguments. Identifiers are handed out by a counter, so that none is used twice; that
  they cannot be guessed is not modelled.
\<close>

definition Create :: "GrantStore \<Rightarrow> int \<Rightarrow> string \<Rightarrow> string \<Rightarrow> string \<Rightarrow> AuthGrant \<times> GrantStore" where
  "Create st now subj access refresh =
     (let g = \<lparr>grantID = nextId st, subject = subj, accessCredential = access,
               refreshCredential = refresh,
               pendingExpiry = now + pendingDuration st,
               accessExpiry = now + accessDuration st,
               refreshExpiry = now + refreshDuration st,
               state = Pending\<rparr>
      in (g, st\<lparr>grants := (grants st)(nextId st := Some g), nextId := Suc (nextId st)\<rparr>))"

text \<open>
  Modelled from the spec: \<^verbatim>\<open>Activate(id) -> error\<close> fails NotFound or Expired if called
  after pendingExpiry; a revoked grant fails closed; a grant becomes Active once. The
  result \<open>None\<close> is Go's nil error. The spec does not say what a second activation within
  the window does; here it succeeds and changes nothing.
\<close>

definition Activate :: "GrantStore \<Rightarrow> int \<Rightarrow> nat \<Rightarrow> SessionError option \<times> GrantStore" where
  "Activate st now gid =
     (case grants st gid of
        None \<Rightarrow> (Some ErrNotFound, st)
      | Some g \<Rightarrow>
          if now > pendingExpiry g then (Some ErrExpired, st)
          else if state g = Revoked then (Some ErrRevoked, st)
          else if state g = Expired then (Some ErrExpired, st)
          else (None, st\<lparr>grants := (grants st)(gid := Some (g\<lparr>state := Active\<rparr>))\<rparr>))"

text \<open>
  Modelled from the spec: \<^verbatim>\<open>Get(id) -> AuthGrant, error\<close> fails NotFound, Expired,
  Revoked; Get after refreshExpiry always fails Expired.
\<close>

definition Get :: "GrantStore \<Rightarrow> int \<Rightarrow> nat \<Rightarrow> SessionError + AuthGrant" where
  "Get st now gid =
     (case grants st gid of
        None \<Rightarrow> Inl ErrNotFound
      | Some g \<Rightarrow>
          if now > refreshExpiry g then Inl ErrExpired
          else if state g = Revoked then Inl ErrRevoked
          else if state g = Expired then Inl ErrExpired
          else Inr g)"

text \<open>
  Modelled from the spec: \<^verbatim>\<open>Refresh(id) -> AuthGrant, error\<close> extends accessExpiry and
  fails if \<open>now > refreshExpiry\<close>; the grant becomes Expired once
  \<open>now > refreshExpiry\<close>; Revoked is terminal, so a revoked grant stays revoked.
\<close>

definition Refresh :: "GrantStore \<Rightarrow> int \<Rightarrow> nat \<Rightarrow> (SessionError + AuthGrant) \<times> GrantStore" where
  "Refresh st now gid =
     (case grants st gid of
        None \<Rightarrow> (Inl ErrNotFound, st)
      | Some g \<Rightarrow>
          if state g = Revoked then (Inl ErrRevoked, st)
          else if now > refreshExpiry g
          then (Inl ErrExpired, st\<lparr>grants := (grants st)(gid := Some (g\<lparr>state := Expired\<rparr>))\<rparr>)
          else if state g = Expired then (Inl ErrExpired, st)
          else (let g' = g\<lparr>accessExpiry := now + accessDuration st\<rparr>
                in (Inr g', st\<lparr>grants := (grants st)(gid := Some g')\<rparr>)))"

text \<open>Modelled from the spec: \<^verbatim>\<open>Revoke(id) -> error\<close>; Revoked is terminal.\<close>

definition Revoke :: "GrantStore \<Rightarrow> nat \<Rightarrow> SessionError option \<times> GrantStore" where
  "Revoke st gid =
     (case grants st gid of
        None \<Rightarrow> (Some ErrNotFound, st)
      | Some g \<Rightarrow> (None, st\<lparr>grants := (grants st)(gid := Some (g\<lparr>state := Revoked\<rparr>))\<rparr>))"

text \<open>Modelled from the spec: a background sweep removes grants past refreshExpiry.\<close>

definition Sweep :: "GrantStore \<Rightarrow> int \<Rightarrow> GrantStore" where
  "Sweep st now =
     st\<lparr>grants := (\<lambda>gid. case grants st gid of
                            None \<Rightarrow> None
                          | Some g \<Rightarrow> if now > refreshExpiry g then None else Some g)\<rparr>"

text \<open>A call of the store with its arguments; each call of a sequence has its own time.\<close>

datatype store_call =
    CallCreate string string string
  | CallActivate nat
  | CallGet nat
  | CallRefresh nat
  | CallRevoke nat
  | CallSweep

fun call :: "GrantStore \<Rightarrow> int \<times> store_call \<Rightarrow> GrantStore" where
  "call st (now, CallCreate subj access refresh) = snd (Create st now subj access refresh)"
| "call st (now, CallActivate gid) = snd (Activate st now gid)"
| "call st (now, CallGet gid) = st"
| "call st (now, CallRefresh gid) = snd (Refresh st now gid)"
| "call st (now, CallRevoke gid) = snd (Revoke st gid)"
| "call st (now, CallSweep) = Sweep st now"

definition calls :: "GrantStore \<Rightarrow> (int \<times> store_call) list \<Rightarrow> GrantStore" where
  "calls st cs = foldl call st cs"

text \<open>
  What holds of every store that calls have built from a new one: a grant is stored under
  its own identifier, and the counter is beyond every identifier in use.
\<close>

definition storeInv :: "GrantStore \<Rightarrow> bool" where
  "storeInv st \<longleftrightarrow>
     (\<forall>gid. case grants st gid of None \<Rightarrow> True | Some g \<Rightarrow> grantID g = gid \<and> gid < nextId st)"

section \<open>Cookie and rehydration\<close>

text \<open>
  The transports of github.com/eberle1080/jsonrpc read the options that \<^verbatim>\<open>HTTP\<close> passes
  to them; they are not among the sources. A transport keeps, of the options it is given,
  the store, the cookie and the rehydration flag, a later option replacing an earlier
  one.
\<close>

record transport_config =
  cfgAuthStore :: "MemoryStore option"
  cfgBFFAuthCookie :: "BFFAuthCookie option"
  cfgRehydrate :: bool

definition noConfig :: transport_config where
  "noConfig = \<lparr>cfgAuthStore = None, cfgBFFAuthCookie = None, cfgRehydrate = False\<rparr>"

fun sse_apply :: "transport_config \<Rightarrow> sse_Option \<Rightarrow> transport_config" where
  "sse_apply c (sse_WithAuthStore st) = c\<lparr>cfgAuthStore := Some st\<rparr>"
| "sse_apply c (sse_WithBFFAuthCookie k) = c\<lparr>cfgBFFAuthCookie := Some k\<rparr>"
| "sse_apply c (sse_WithRehydrateOnHandshake b) = c\<lparr>cfgRehydrate := b\<rparr>"
| "sse_apply c _ = c"

fun streamable_apply :: "transport_config \<Rightarrow> streamable_Option \<Rightarrow> transport_config" where
  "streamable_apply c (streamable_WithAuthStore st) = c\<lparr>cfgAuthStore := Some st\<rparr>"
| "streamable_apply c (streamable_WithBFFAuthCookie k) = c\<lparr>cfgBFFAuthCookie := Some k\<rparr>"
| "streamable_apply c (streamable_WithRehydrateOnHandshake b) = c\<lparr>cfgRehydrate := b\<rparr>"
| "streamable_apply c _ = c"

fun sse_config :: "sse_Handler \<Rightarrow> transport_config" where
  "sse_config (sse_New opts) = foldl sse_apply noConfig opts"

fun streamable_config :: "streamable_Handler \<Rightarrow> transport_config" where
  "streamable_config (streamable_New opts) = foldl streamable_apply noConfig opts"

datatype transport_kind = LocalHTTP | Stdio | NoTransport

record Session =
  sessionID :: nat
  transportKind :: transport_kind
  boundGrant :: "AuthGrant option"
  lastActivity :: int
  viaCookie :: bool

record Cookie =
  cookieName :: string
  cookieValue :: nat
  cookieHttpOnly :: bool

text \<open>
  Modelled from the spec: the cookie of a grant is not built in the sources. The spec:
  name BFF-Auth-Session (configurable), HttpOnly, carries only the opaque session
  identifier.
\<close>

definition issueCookie :: "transport_config \<Rightarrow> AuthGrant \<Rightarrow> Cookie option" where
  "issueCookie cfg g =
     (case cfgBFFAuthCookie cfg of
        None \<Rightarrow> None
      | Some k \<Rightarrow> Some \<lparr>cookieName = Name k, cookieValue = grantID g, cookieHttpOnly = HttpOnly k\<rparr>)"

text \<open>
  Modelled from the spec: the handshake is not among the sources. The spec: a Session is
  created on first handshake per transport connection; rehydration on handshake looks up
  the Auth Grant Store by the identifier of the cookie and re-binds the grant to the new
  transport connection.
\<close>

definition handshake :: "transport_config \<Rightarrow> GrantStore \<Rightarrow> int \<Rightarrow> nat \<Rightarrow> Cookie list \<Rightarrow> Session" where
  "handshake cfg st now conn presented =
     (let fresh = \<lparr>sessionID = conn, transportKind = LocalHTTP, boundGrant = None,
                   lastActivity = now, viaCookie = False\<rparr>
      in case cfgBFFAuthCookie cfg of
           None \<Rightarrow> fresh
         | Some k \<Rightarrow>
             if \<not> cfgRehydrate cfg then fresh
             else case find (\<lambda>c. cookieName c = Name k) presented of
                    None \<Rightarrow> fresh
                  | Some c \<Rightarrow>
                      (case Get st now (cookieValue c) of
                         Inl e \<Rightarrow> fresh
                       | Inr g \<Rightarrow> fresh\<lparr>boundGrant := Some g, viaCookie := True\<rparr>))"

section \<open>The Token Acquisition Engine\<close>

datatype AuthError =
    GrantNotFound
  | GrantExpired
  | GrantRevoked
  | DiscoveryFailed
  | AcquisitionFailed
  | AcquisitionTimeout

record Token =
  tokenValue :: string
  tokenExpiry :: int

record Metadata =
  issuer :: string
  tokenEndpoint :: string
  pkceRequired :: bool
  supportedScopes :: "string list"

record RemoteRequest =
  payload :: string
  bearer :: "string option"

text \<open>
  The remote side: the status it answers to the \<open>k\<close>-th attempt of a request, the issuer
  its protected-resource document names for an endpoint, the metadata of an
  authorization server, and the outcome of the configured acquisition flow.
\<close>

record Remote =
  respond :: "nat \<Rightarrow> RemoteRequest \<Rightarrow> nat"
  protectedResource :: "string \<Rightarrow> string option"
  authorizationServer :: "string \<Rightarrow> Metadata option"
  acquire :: "Metadata \<Rightarrow> string \<Rightarrow> AuthError + Token"

record Engine =
  tokens :: "string \<times> string \<Rightarrow> Token option"
  resources :: "string \<Rightarrow> string option"

text \<open>
  Modelled from the spec: the engine is not among the sources. The spec:
  \<^verbatim>\<open>Authenticate(endpoint, request) -> request'\<close> attaches a cached valid token if present
  and not expired; token caching is per (endpoint, subject).
\<close>

definition Authenticate :: "Engine \<Rightarrow> int \<Rightarrow> string \<Rightarrow> string \<Rightarrow> RemoteRequest \<Rightarrow> RemoteRequest" where
  "Authenticate E now ep subj q =
     (case tokens E (ep, subj) of
        None \<Rightarrow> q
      | Some t \<Rightarrow> if now < tokenExpiry t then q\<lparr>bearer := Some (tokenValue t)\<rparr> else q)"

text \<open>
  Modelled from the spec: (1) fetch protected-resource metadata from the endpoint's
  well-known discovery path (cached after first success); (2) fetch authorization-server
  metadata from the issuer indicated; a failed discovery clears the cache entry.
\<close>

definition discover :: "Remote \<Rightarrow> Engine \<Rightarrow> string \<Rightarrow> (AuthError + Metadata) \<times> Engine" where
  "discover R E ep =
     (case (case resources E ep of Some i \<Rightarrow> Some i | None \<Rightarrow> protectedResource R ep) of
        None \<Rightarrow> (Inl DiscoveryFailed, E\<lparr>resources := (resources E)(ep := None)\<rparr>)
      | Some i \<Rightarrow>
          (case authorizationServer R i of
             None \<Rightarrow> (Inl DiscoveryFailed, E\<lparr>resources := (resources E)(ep := None)\<rparr>)
           | Some md \<Rightarrow> (Inr md, E\<lparr>resources := (resources E)(ep := Some i)\<rparr>)))"

text \<open>
  Modelled from the spec: on receiving a 401, discover, (3) run the configured acquisition
  flow to obtain a token, (4) retry the original request with the new token attached; a
  401 when no retry is left is surfaced as an authentication failure. The first argument
  counts the retries that are left, the sixth the attempts made before; the result holds
  the outcome, the engine and the attempts sent to the remote, in order.
\<close>

fun send :: "nat \<Rightarrow> Remote \<Rightarrow> Engine \<Rightarrow> string \<Rightarrow> string \<Rightarrow> nat \<Rightarrow> RemoteRequest
    \<Rightarrow> (AuthError + nat) \<times> Engine \<times> RemoteRequest list" where
  "send 0 R E ep subj k q =
     (if respond R k q = 401 then (Inl AcquisitionFailed, E, [q])
      else (Inr (respond R k q), E, [q]))"
| "send (Suc n) R E ep subj k q =
     (if respond R k q \<noteq> 401 then (Inr (respond R k q), E, [q])
      else case discover R E ep of
             (Inl e, E1) \<Rightarrow> (Inl e, E1, [q])
           | (Inr md, E1) \<Rightarrow>
               (case acquire R md subj of
                  Inl e \<Rightarrow> (Inl e, E1, [q])
                | Inr tok \<Rightarrow>
                    (let E2 = E1\<lparr>tokens := (tokens E1)((ep, subj) := Some tok)\<rparr>;
                         r = send n R E2 ep subj (Suc k) (q\<lparr>bearer := Some (tokenValue tok)\<rparr>)
                     in (fst r, fst (snd r), q # snd (snd r)))))"

text \<open>Modelled from the spec: the retry happens exactly once.\<close>

definition RoundTrip :: "Remote \<Rightarrow> Engine \<Rightarrow> int \<Rightarrow> string \<Rightarrow> string \<Rightarrow> RemoteRequest
    \<Rightarrow> (AuthError + nat) \<times> Engine \<times> RemoteRequest list" where
  "RoundTrip R E now ep subj q = send 1 R E ep subj 0 (Authenticate E now ep subj q)"

section \<open>Example values\<close>

text \<open>
  A library whose patterns are valid when they hold a slash and conflict when they are
  equal, whose transports answer 200, and whose protocol-version middleware passes every
  request on.
\<close>

definition passOn :: "string \<Rightarrow> Middleware" where
  "passOn name next r = (name # fst (next r), snd (next r))"

definition answer :: "string \<Rightarrow> nat \<Rightarrow> http_handler" where
  "answer name code r = ([name], \<lparr>Status = code, Headers = []\<rparr>)"

definition exampleDeps :: deps where
  "exampleDeps =
     \<lparr>unicodeToLower = (\<lambda>r. r),
      validPattern = (\<lambda>p. CHR ''/'' \<in> set p),
      conflicts = (\<lambda>p q. p = q),
      sseServeHTTP = (\<lambda>h. answer ''sse'' 200),
      streamableServeHTTP = (\<lambda>h. answer ''streamable'' 200),
      protocolVersionMiddleware = passOn ''protocolVersion''\<rparr>"

text \<open>A server on which no option has been set.\<close>

definition exampleServer :: Server where
  "exampleServer =
     \<lparr>sseHandler = None, streamingHandler = None, useStreamableHTTP = False, addr = [],
      customHTTPHandlers = [], sseURI = [], sseMessageURI = [], streamableURI = [],
      rootRedirect = False, sessionStore = None, protectedResourcesHandler = None,
      authorizer = None, corsHandler = passOn ''cors'', corsConfig = None\<rparr>"

text \<open>A process at its start, the variable \<^verbatim>\<open>MCP_DEBUG\<close> holding the given value.\<close>

definition startProcess :: "rune list \<Rightarrow> process" where
  "startProcess e =
     \<lparr>MCP_DEBUG = e, srvDbg_once = False, srvDbg_v = False, defaultBFFAuthStore = None,
      defaultBFFAuthCookieName = None, stdout = []\<rparr>"

text \<open>A server that has a handler for the protected-resource document.\<close>

definition documentedServer :: Server where
  "documentedServer = exampleServer\<lparr>protectedResourcesHandler := Some (answer ''metadata'' 200)\<rparr>"




text \<open>
  A grant created at time 0 in the store that \<^verbatim>\<open>HTTP\<close> builds, the store that holds it,
  and a creation followed by an activation after 90 seconds.
\<close>

definition aliceCalls :: "(int \<times> store_call) list" where
  "aliceCalls = [(0, CallCreate ''alice'' ''access'' ''refresh''), (90 * Second, CallActivate 0)]"

definition aliceGrant :: AuthGrant where
  "aliceGrant = fst (Create (openStore memAuth) 0 ''alice'' ''access'' ''refresh'')"

definition aliceStore :: GrantStore where
  "aliceStore = snd (Create (openStore memAuth) 0 ''alice'' ''access'' ''refresh'')"

text \<open>A remote that answers 401 to every attempt and whose discovery and flow succeed.\<close>

definition closedRemote :: Remote where
  "closedRemote =
     \<lparr>respond = (\<lambda>k q. 401),
      protectedResource = (\<lambda>ep. Some ''https://issuer.example''),
      authorizationServer =
        (\<lambda>i. Some \<lparr>issuer = i, tokenEndpoint = i @ ''/token'', pkceRequired = True,
                    supportedScopes = []\<rparr>),
      acquire = (\<lambda>md subj. Inr \<lparr>tokenValue = ''fresh'', tokenExpiry = 3600\<rparr>)\<rparr>"

definition emptyEngine :: Engine where
  "emptyEngine = \<lparr>tokens = (\<lambda>k. None), resources = (\<lambda>ep. None)\<rparr>"

section \<open>What a call of HTTP returns\<close>

lemma HTTP_process:
  "snd (HTTP D s a P) =
     logStartup D (resolveAddr s a) (defaultURIs s)
       (SetDefaultBFFAuthCookieName ''BFF-Auth-Session'' (SetDefaultBFFAuthStore memAuth P))"
  by (simp add: HTTP_def Let_def)

lemma HTTP_result:
  "fst (HTTP D s a P) =
     (case buildMux D (newHandlers (defaultURIs s)) of
        Inl e \<Rightarrow> Inl e
      | Inr mux \<Rightarrow> Inr (\<lparr>Addr = resolveAddr s a, Handler = mux\<rparr>, newHandlers (defaultURIs s)))"
  by (simp add: HTTP_def Let_def)

lemma HTTP_returns:
  assumes "fst (HTTP D s a P) = Inr (srv, s')"
  shows "s' = newHandlers (defaultURIs s)"
    and "Addr srv = resolveAddr s a"
    and "buildMux D s' = Inr (Handler srv)"
  using assms by (auto simp: HTTP_result split: sum.splits)

lemma Handle_Inr:
  "Handle D mux p h = Inr mux' \<Longrightarrow> \<exists>e. h = Some e \<and> mux' = mux @ [(p, e)]"
  by (auto simp: Handle_def split: if_splits option.splits)

lemma handleCustom_Inr:
  "handleCustom D mux cs = Inr mux' \<Longrightarrow>
   mux' = mux @ map (\<lambda>c. (fst c, Mounted (the (snd c)))) cs"
proof (induction cs arbitrary: mux)
  case Nil
  then show ?case by simp
next
  case (Cons c cs)
  obtain path handler where c: "c = (path, handler)"
    by (cases c)
  from Cons.prems c obtain mux1 where
    first: "Handle D mux path (map_option Mounted handler) = Inr mux1" and
    rest: "handleCustom D mux1 cs = Inr mux'"
    by (auto split: sum.splits)
  from Handle_Inr [OF first] obtain h where "handler = Some h" "mux1 = mux @ [(path, Mounted h)]"
    by auto
  with Cons.IH [OF rest] c show ?case
    by simp
qed

lemma buildMux_Inr:
  assumes "buildMux D s = Inr mux"
  shows "mux = customEntries s @ protectedEntries s @ transportEntries D s @ rootEntries s"
proof -
  from assms obtain m1 m2 m3 m4 m5 where
    1: "handleCustom D [] (customHTTPHandlers s) = Inr m1" and
    2: "handleProtectedResources D s m1 = Inr m2" and
    3: "Handle D m2 (sseURI s) (Some (Mounted (sseChain D s))) = Inr m3" and
    4: "Handle D m3 (sseMessageURI s) (Some (Mounted (sseChain D s))) = Inr m4" and
    5: "Handle D m4 (streamableURI s) (Some (Mounted (streamChain D s))) = Inr m5" and
    6: "handleRoot D s m5 = Inr mux"
    by (auto simp: buildMux_def andThen_def split: sum.splits)
  have m1: "m1 = customEntries s"
    using handleCustom_Inr [OF 1] by (simp add: customEntries_def)
  have m2: "m2 = m1 @ protectedEntries s"
    using 2 by (auto simp: handleProtectedResources_def protectedEntries_def
        split: option.splits dest: Handle_Inr)
  have m3: "m3 = m2 @ [(sseURI s, Mounted (sseChain D s))]"
    using Handle_Inr [OF 3] by simp
  have m4: "m4 = m3 @ [(sseMessageURI s, Mounted (sseChain D s))]"
    using Handle_Inr [OF 4] by simp
  have m5: "m5 = m4 @ [(streamableURI s, Mounted (streamChain D s))]"
    using Handle_Inr [OF 5] by simp
  have "mux = m5 @ rootEntries s"
    using 6 by (auto simp: handleRoot_def rootEntries_def split: if_splits dest: Handle_Inr)
  with m1 m2 m3 m4 m5 show ?thesis
    by (simp add: transportEntries_def)
qed

lemma defaultURIs_fields:
  "sseURI (defaultURIs s) = (if sseURI s = [] then ''/sse'' else sseURI s)"
  "sseMessageURI (defaultURIs s) = (if sseMessageURI s = [] then ''/message'' else sseMessageURI s)"
  "streamableURI (defaultURIs s) = (if streamableURI s = [] then ''/mcp'' else streamableURI s)"
  "customHTTPHandlers (defaultURIs s) = customHTTPHandlers s"
  "protectedResourcesHandler (defaultURIs s) = protectedResourcesHandler s"
  "authorizer (defaultURIs s) = authorizer s"
  "corsHandler (defaultURIs s) = corsHandler s"
  "corsConfig (defaultURIs s) = corsConfig s"
  "rootRedirect (defaultURIs s) = rootRedirect s"
  "sessionStore (defaultURIs s) = sessionStore s"
  by (simp_all add: defaultURIs_def Let_def)

lemma newHandlers_fields:
  "sseURI (newHandlers s) = sseURI s"
  "sseMessageURI (newHandlers s) = sseMessageURI s"
  "streamableURI (newHandlers s) = streamableURI s"
  "customHTTPHandlers (newHandlers s) = customHTTPHandlers s"
  "protectedResourcesHandler (newHandlers s) = protectedResourcesHandler s"
  "authorizer (newHandlers s) = authorizer s"
  "corsHandler (newHandlers s) = corsHandler s"
  "corsConfig (newHandlers s) = corsConfig s"
  "rootRedirect (newHandlers s) = rootRedirect s"
  "sseHandler (newHandlers s) = Some (sse_New (sseOptions s))"
  "streamingHandler (newHandlers s) = Some (streamable_New (streamableOptions s))"
  by (simp_all add: newHandlers_def)

lemma example_buildMux:
  "buildMux exampleDeps (newHandlers (defaultURIs exampleServer)) =
     Inr (transportEntries exampleDeps (newHandlers (defaultURIs exampleServer)))"
  by (simp add: buildMux_def andThen_def handleProtectedResources_def handleRoot_def Handle_def
      exampleDeps_def exampleServer_def defaultURIs_def newHandlers_def Let_def transportEntries_def)



lemma middlewareHandlers_returned:
  "middlewareHandlers D (newHandlers (defaultURIs s)) = middlewareHandlers D s"
  by (simp add: middlewareHandlers_def defaultURIs_fields newHandlers_fields)

lemma documented_buildMux:
  "buildMux exampleDeps (newHandlers (defaultURIs documentedServer)) =
     Inr ((wellKnown, Mounted (answer ''metadata'' 200))
          # transportEntries exampleDeps (newHandlers (defaultURIs documentedServer)))"
  by (simp add: buildMux_def andThen_def handleProtectedResources_def handleRoot_def Handle_def
      exampleDeps_def exampleServer_def documentedServer_def defaultURIs_def newHandlers_def
      Let_def transportEntries_def wellKnown_def)

lemma logStartup_keeps:
  "defaultBFFAuthStore (logStartup D a s P) = defaultBFFAuthStore P"
  "defaultBFFAuthCookieName (logStartup D a s P) = defaultBFFAuthCookieName P"
  by (simp_all add: logStartup_def Let_def serverDebug_def Printf_def)

lemma logStartup_stdout:
  "stdout (logStartup D a s P) =
     stdout P @ (if fst (serverDebug D P) then [addrLine a s, bffLine] else [])"
  by (simp add: logStartup_def Let_def serverDebug_def Printf_def)

lemma HTTP_defaultBFFAuthStore:
  "defaultBFFAuthStore (snd (HTTP D s a P)) = Some memAuth"
  by (simp add: HTTP_process logStartup_keeps SetDefaultBFFAuthStore_def
      SetDefaultBFFAuthCookieName_def)

lemma handleCustom_registered:
  "handleCustom D mux cs = Inr mux' \<Longrightarrow> c \<in> set cs \<Longrightarrow> \<exists>h. snd c = Some h"
proof (induction cs arbitrary: mux)
  case Nil
  then show ?case by simp
next
  case (Cons x cs)
  obtain path handler where x: "x = (path, handler)"
    by (cases x)
  from Cons.prems(1) x obtain mux1 where
    first: "Handle D mux path (map_option Mounted handler) = Inr mux1" and
    rest: "handleCustom D mux1 cs = Inr mux'"
    by (auto split: sum.splits)
  from Handle_Inr [OF first] obtain h where "handler = Some h"
    by auto
  with Cons.IH [OF rest] Cons.prems(2) x show ?case
    by auto
qed

lemma buildMux_custom:
  assumes "buildMux D s = Inr mux" and "c \<in> set (customHTTPHandlers s)"
  shows "\<exists>h. snd c = Some h"
proof -
  from assms(1) obtain m1 where "handleCustom D [] (customHTTPHandlers s) = Inr m1"
    by (auto simp: buildMux_def andThen_def split: sum.splits)
  from handleCustom_registered [OF this assms(2)] show ?thesis .
qed

lemma sseOptions_returned:
  "sseOptions (newHandlers s) = sseOptions s"
  "streamableOptions (newHandlers s) = streamableOptions s"
  by (simp_all add: sseOptions_def streamableOptions_def newHandlers_def)

section \<open>The bind address\<close>

text \<open>
  Claim C10. For every call of \<^verbatim>\<open>HTTP\<close> with an empty \<open>addr\<close> argument on a server that
  has no address configured, the \<^verbatim>\<open>http.Server\<close> that is returned has the address
  127.0.0.1:5000: by default the server binds to localhost only.
\<close>

theorem HTTP_binds_localhost_by_default:
  "a = [] \<Longrightarrow> addr s = [] \<Longrightarrow> fst (HTTP D s a P) = Inr (srv, s') \<Longrightarrow>
   Addr srv = ''127.0.0.1:5000''"
  by (simp add: HTTP_returns(2) resolveAddr_def)

text \<open>
  The server on which no option is set, called with the empty address, returns, and the
  address of what it returns is 127.0.0.1:5000.
\<close>

theorem HTTP_binds_localhost_by_default_witness:
  "addr exampleServer = [] \<and>
   (\<exists>srv s'. fst (HTTP exampleDeps exampleServer [] (startProcess [])) = Inr (srv, s')
      \<and> Addr srv = ''127.0.0.1:5000'')"
proof -
  have empty: "addr exampleServer = []"
    by (simp add: exampleServer_def)
  obtain srv s' where ret: "fst (HTTP exampleDeps exampleServer [] (startProcess [])) = Inr (srv, s')"
    by (simp add: HTTP_result example_buildMux)
  from HTTP_binds_localhost_by_default [OF refl empty ret] empty ret show ?thesis
    by blast
qed

section \<open>The default store\<close>

text \<open>
  Claim C2, as the code has it. Every call of \<^verbatim>\<open>HTTP\<close> builds an in-memory store itself,
  \<^verbatim>\<open>NewMemoryStore(30*time.Minute, 24*time.Hour, 2*time.Minute)\<close>, and installs it as the
  process-wide default BFF auth store, whatever the server and the process were before and
  whether \<^verbatim>\<open>HTTP\<close> returns or panics.
\<close>

theorem HTTP_installs_default_store:
  "defaultBFFAuthStore (snd (HTTP D s a P)) =
     Some (NewMemoryStore (30 * Minute) (24 * Hour) (2 * Minute))"
  using HTTP_defaultBFFAuthStore [of D s a P] by (simp add: memAuth_def)

text \<open>
  Claim C2 as stated fails: in a process that has no default store, a call of \<^verbatim>\<open>HTTP\<close> on a
  server on which the caller has set no option installs one.
\<close>

theorem HTTP_installs_default_store_unasked:
  "defaultBFFAuthStore (startProcess []) = None \<and>
   defaultBFFAuthStore (snd (HTTP exampleDeps exampleServer [] (startProcess []))) =
     Some (NewMemoryStore (30 * Minute) (24 * Hour) (2 * Minute))"
  using HTTP_defaultBFFAuthStore [of exampleDeps exampleServer "[]" "startProcess []"]
  by (simp add: memAuth_def startProcess_def)

section \<open>The mounted paths\<close>

text \<open>
  Claim C8, as the code has it. When no base path is configured and \<^verbatim>\<open>HTTP\<close> returns, the
  chain around the push-channel transport is mounted at /sse and at /message and the chain
  around the single-channel streaming transport at /mcp, the transports being built with
  these paths. The protected-resource document is mounted at
  /.well-known/oauth-protected-resource when the server has a handler for it; when it has
  none, \<^verbatim>\<open>HTTP\<close> mounts nothing there but what the custom handlers hold for that path.
\<close>

theorem HTTP_default_mounts:
  assumes "sseURI s = []" and "sseMessageURI s = []" and "streamableURI s = []"
    and "fst (HTTP D s a P) = Inr (srv, s')"
  shows "(''/sse'', Mounted (sseChain D s')) \<in> set (Handler srv) \<and>
         (''/message'', Mounted (sseChain D s')) \<in> set (Handler srv) \<and>
         (''/mcp'', Mounted (streamChain D s')) \<in> set (Handler srv) \<and>
         sseHandler s' = Some (sse_New (sseOptions s')) \<and>
         sse_WithURI ''/sse'' \<in> set (sseOptions s') \<and>
         sse_WithMessageURI ''/message'' \<in> set (sseOptions s') \<and>
         streamingHandler s' = Some (streamable_New (streamableOptions s')) \<and>
         streamable_WithURI ''/mcp'' \<in> set (streamableOptions s') \<and>
         (\<forall>h. protectedResourcesHandler s = Some h \<longrightarrow>
              (''/.well-known/oauth-protected-resource'', Mounted h) \<in> set (Handler srv)) \<and>
         (protectedResourcesHandler s = None \<longrightarrow>
            (\<forall>e. (''/.well-known/oauth-protected-resource'', e) \<in> set (Handler srv) \<longrightarrow>
               (\<exists>h. (''/.well-known/oauth-protected-resource'', Some h)
                      \<in> set (customHTTPHandlers s) \<and> e = Mounted h)))"
proof -
  note ret = HTTP_returns [OF assms(4)]
  have uris: "sseURI s' = ''/sse''" "sseMessageURI s' = ''/message''" "streamableURI s' = ''/mcp''"
    using assms(1-3) by (simp_all add: ret(1) newHandlers_fields defaultURIs_fields)
  have mux: "Handler srv = customEntries s' @ protectedEntries s' @ transportEntries D s' @ rootEntries s'"
    using buildMux_Inr [OF ret(3)] .
  have transports: "(''/sse'', Mounted (sseChain D s')) \<in> set (Handler srv) \<and>
         (''/message'', Mounted (sseChain D s')) \<in> set (Handler srv) \<and>
         (''/mcp'', Mounted (streamChain D s')) \<in> set (Handler srv)"
    by (simp add: mux transportEntries_def uris)
  have handlers: "sseHandler s' = Some (sse_New (sseOptions s')) \<and>
         sse_WithURI ''/sse'' \<in> set (sseOptions s') \<and>
         sse_WithMessageURI ''/message'' \<in> set (sseOptions s') \<and>
         streamingHandler s' = Some (streamable_New (streamableOptions s')) \<and>
         streamable_WithURI ''/mcp'' \<in> set (streamableOptions s')"
    using uris unfolding ret(1) sseOptions_returned newHandlers_fields
    by (simp add: sseOptions_def streamableOptions_def newHandlers_fields)
  have prot: "protectedResourcesHandler s' = protectedResourcesHandler s"
    and cust: "customHTTPHandlers s' = customHTTPHandlers s"
    by (simp_all add: ret(1) newHandlers_fields defaultURIs_fields)
  have some: "\<forall>h. protectedResourcesHandler s = Some h \<longrightarrow>
              (''/.well-known/oauth-protected-resource'', Mounted h) \<in> set (Handler srv)"
    by (simp add: mux protectedEntries_def prot wellKnown_def)
  have none: "protectedResourcesHandler s = None \<longrightarrow>
            (\<forall>e. (''/.well-known/oauth-protected-resource'', e) \<in> set (Handler srv) \<longrightarrow>
               (\<exists>h. (''/.well-known/oauth-protected-resource'', Some h)
                      \<in> set (customHTTPHandlers s) \<and> e = Mounted h))"
  proof (intro impI allI)
    fix e
    assume np: "protectedResourcesHandler s = None"
      and e: "(''/.well-known/oauth-protected-resource'', e) \<in> set (Handler srv)"
    from e np have "(''/.well-known/oauth-protected-resource'', e) \<in> set (customEntries s')"
      by (auto simp: mux protectedEntries_def prot transportEntries_def uris rootEntries_def
          split: if_splits)
    then obtain c where c: "c \<in> set (customHTTPHandlers s)"
      "fst c = ''/.well-known/oauth-protected-resource''" "e = Mounted (the (snd c))"
      by (auto simp: customEntries_def cust)
    have "c \<in> set (customHTTPHandlers s')"
      using c(1) by (simp add: cust)
    from buildMux_custom [OF ret(3) this] obtain h where h: "snd c = Some h" ..
    with c have "(''/.well-known/oauth-protected-resource'', Some h) \<in> set (customHTTPHandlers s)"
      by (metis prod.collapse)
    with h c(3)
    show "\<exists>h. (''/.well-known/oauth-protected-resource'', Some h) \<in> set (customHTTPHandlers s) \<and> e = Mounted h"
      by auto
  qed
  from transports handlers some none show ?thesis
    by blast
qed


text \<open>
  A server with a handler for the document and no base path returns with the four mounts.
\<close>

theorem HTTP_default_mounts_witness:
  "sseURI documentedServer = [] \<and> sseMessageURI documentedServer = [] \<and>
   streamableURI documentedServer = [] \<and>
   protectedResourcesHandler documentedServer = Some (answer ''metadata'' 200) \<and>
   (\<exists>srv s'. fst (HTTP exampleDeps documentedServer [] (startProcess [])) = Inr (srv, s') \<and>
      (''/sse'', Mounted (sseChain exampleDeps s')) \<in> set (Handler srv) \<and>
      (''/message'', Mounted (sseChain exampleDeps s')) \<in> set (Handler srv) \<and>
      (''/mcp'', Mounted (streamChain exampleDeps s')) \<in> set (Handler srv) \<and>
      (''/.well-known/oauth-protected-resource'', Mounted (answer ''metadata'' 200))
        \<in> set (Handler srv))"
proof -
  have fields: "sseURI documentedServer = []" "sseMessageURI documentedServer = []"
    "streamableURI documentedServer = []"
    "protectedResourcesHandler documentedServer = Some (answer ''metadata'' 200)"
    by (simp_all add: documentedServer_def exampleServer_def)
  obtain srv s' where
    ret: "fst (HTTP exampleDeps documentedServer [] (startProcess [])) = Inr (srv, s')"
    by (simp add: HTTP_result documented_buildMux)
  from HTTP_default_mounts [OF fields(1-3) ret] fields ret show ?thesis
    by blast
qed

text \<open>
  Claim C8 as stated fails: on a server with no base path and no handler for the document
  \<^verbatim>\<open>HTTP\<close> returns with the three paths of the transports and nothing at
  /.well-known/oauth-protected-resource.
\<close>

theorem HTTP_default_mounts_no_document:
  "sseURI exampleServer = [] \<and> sseMessageURI exampleServer = [] \<and>
   streamableURI exampleServer = [] \<and>
   patterns (fst (HTTP exampleDeps exampleServer [] (startProcess []))) =
     [''/sse'', ''/message'', ''/mcp''] \<and>
   ''/.well-known/oauth-protected-resource''
     \<notin> set (patterns (fst (HTTP exampleDeps exampleServer [] (startProcess []))))"
  by (simp add: HTTP_result example_buildMux patterns_def transportEntries_def
      defaultURIs_fields newHandlers_fields) (simp add: exampleServer_def)

section \<open>The order of the middleware\<close>

text \<open>
  \<^verbatim>\<open>HTTP\<close> builds the list of middleware in the order authorizer, protocol-version
  validation, CORS, origin validation (lines 103 to 113). With a chain in which the first
  middleware of the list sees the request first, the handler mounted for either transport
  on a server with an authorizer and a CORS configuration is the authorizer applied to
  the rest of the chain.
\<close>

lemma HTTP_chain_order:
  assumes "fst (HTTP D s a P) = Inr (srv, s')"
    and "authorizer s = Some az"
    and "corsConfig s = Some c"
  shows "middlewareHandlers D s' =
           [az, protocolVersionMiddleware D, corsHandler s,
            originValidationMiddleware (AllowOrigins c)] \<and>
         sseChain D s' =
           az (protocolVersionMiddleware D (corsHandler s
             (originValidationMiddleware (AllowOrigins c)
               (sseServeHTTP D (the (sseHandler s')))))) \<and>
         streamChain D s' =
           az (protocolVersionMiddleware D (corsHandler s
             (originValidationMiddleware (AllowOrigins c)
               (streamableServeHTTP D (the (streamingHandler s')))))) \<and>
         (sseURI s', Mounted (sseChain D s')) \<in> set (Handler srv) \<and>
         (sseMessageURI s', Mounted (sseChain D s')) \<in> set (Handler srv) \<and>
         (streamableURI s', Mounted (streamChain D s')) \<in> set (Handler srv)"
proof -
  note ret = HTTP_returns [OF assms(1)]
  have mw: "middlewareHandlers D s' =
           [az, protocolVersionMiddleware D, corsHandler s,
            originValidationMiddleware (AllowOrigins c)]"
    unfolding ret(1) middlewareHandlers_returned
    by (simp add: middlewareHandlers_def assms(2,3))
  have "Handler srv = customEntries s' @ protectedEntries s' @ transportEntries D s' @ rootEntries s'"
    using buildMux_Inr [OF ret(3)] .
  then have mounted: "(sseURI s', Mounted (sseChain D s')) \<in> set (Handler srv) \<and>
         (sseMessageURI s', Mounted (sseChain D s')) \<in> set (Handler srv) \<and>
         (streamableURI s', Mounted (streamChain D s')) \<in> set (Handler srv)"
    by (simp add: transportEntries_def)
  have sse: "sseChain D s' =
           az (protocolVersionMiddleware D (corsHandler s
             (originValidationMiddleware (AllowOrigins c)
               (sseServeHTTP D (the (sseHandler s'))))))"
    unfolding sseChain_def mw by (simp add: ChainMiddlewareHandlers_def)
  have stream: "streamChain D s' =
           az (protocolVersionMiddleware D (corsHandler s
             (originValidationMiddleware (AllowOrigins c)
               (streamableServeHTTP D (the (streamingHandler s'))))))"
    unfolding streamChain_def mw by (simp add: ChainMiddlewareHandlers_def)
  from mw sse stream mounted show ?thesis
    by blast
qed


section \<open>Startup logging\<close>

text \<open>
  \<^verbatim>\<open>sync.Once\<close>: the first call of \<^verbatim>\<open>serverDebug\<close> in a process reads the environment;
  every later call returns the value of the first.
\<close>

lemma serverDebug_first:
  "\<not> srvDbg_once P \<Longrightarrow> fst (serverDebug D P) = debugValue D (MCP_DEBUG P)"
  by (simp add: serverDebug_def)

lemma serverDebug_cached:
  "srvDbg_once P \<Longrightarrow> serverDebug D P = (srvDbg_v P, P)"
  by (simp add: serverDebug_def)

lemma serverDebug_value:
  "srvDbg_once P \<longrightarrow> srvDbg_v P = debugValue D (MCP_DEBUG P) \<Longrightarrow>
   fst (serverDebug D P) = debugValue D (MCP_DEBUG P)"
  by (simp add: serverDebug_def)

lemma setters_keep:
  "srvDbg_once (SetDefaultBFFAuthCookieName n (SetDefaultBFFAuthStore st P)) = srvDbg_once P"
  "srvDbg_v (SetDefaultBFFAuthCookieName n (SetDefaultBFFAuthStore st P)) = srvDbg_v P"
  "MCP_DEBUG (SetDefaultBFFAuthCookieName n (SetDefaultBFFAuthStore st P)) = MCP_DEBUG P"
  "stdout (SetDefaultBFFAuthCookieName n (SetDefaultBFFAuthStore st P)) = stdout P"
  by (simp_all add: SetDefaultBFFAuthCookieName_def SetDefaultBFFAuthStore_def)

lemma debugValue_TRUE: "debugValue exampleDeps (runes '' TRUE '')"
  by (simp add: debugValue_def runes_def TrimSpace_def isSpace_def ToLower_def toLowerRune_def
      exampleDeps_def)

lemma not_debugValue_False: "\<not> debugValue exampleDeps (runes ''False '')"
  by (simp add: debugValue_def runes_def TrimSpace_def isSpace_def ToLower_def toLowerRune_def
      exampleDeps_def)

text \<open>
  Claim C7. Verbose startup logging is enabled if and only if the value of \<^verbatim>\<open>MCP_DEBUG\<close>,
  after trimming white space and lower-casing, is not empty and is neither "0" nor
  "false"; when enabled, \<^verbatim>\<open>HTTP\<close> prints the bound address and the SSE, message and
  streamable paths it uses (and a line on the BFF cookie), and nothing otherwise. The flag
  is read once per process: the hypothesis says that a flag read before was read from the
  value the variable has now, which holds in particular when it has not been read yet.
\<close>

theorem startup_logging:
  assumes "srvDbg_once P \<longrightarrow> srvDbg_v P = debugValue D (MCP_DEBUG P)"
  shows "stdout (snd (HTTP D s a P)) =
     stdout P @
     (let v = ToLower (unicodeToLower D) (TrimSpace (MCP_DEBUG P))
      in if v \<noteq> [] \<and> v \<noteq> runes ''0'' \<and> v \<noteq> runes ''false''
         then [''[mcp/server] HTTP addr='' @ resolveAddr s a
                 @ '' sseURI='' @ sseURI (defaultURIs s)
                 @ '' msgURI='' @ sseMessageURI (defaultURIs s)
                 @ '' streamURI='' @ streamableURI (defaultURIs s) @ [CHR 0x0A],
               ''[mcp/server] BFF auth: memStore=yes authCookie=BFF-Auth-Session rehydrate=true''
                 @ [CHR 0x0A]]
         else [])"
proof -
  let ?P1 = "SetDefaultBFFAuthCookieName ''BFF-Auth-Session'' (SetDefaultBFFAuthStore memAuth P)"
  have "srvDbg_once ?P1 \<longrightarrow> srvDbg_v ?P1 = debugValue D (MCP_DEBUG ?P1)"
    using assms by (simp add: setters_keep)
  from serverDebug_value [OF this]
  have "fst (serverDebug D ?P1) = debugValue D (MCP_DEBUG P)"
    by (simp add: setters_keep)
  then show ?thesis
    by (simp add: HTTP_process logStartup_stdout setters_keep debugValue_def Let_def
        addrLine_def bffLine_def)
qed

text \<open>
  In a fresh process with \<^verbatim>\<open>MCP_DEBUG\<close> set to " TRUE " the two lines are printed; with
  "False " nothing is.
\<close>

theorem startup_logging_witness:
  "\<not> srvDbg_once (startProcess (runes '' TRUE '')) \<and>
   stdout (snd (HTTP exampleDeps exampleServer [] (startProcess (runes '' TRUE '')))) =
     [''[mcp/server] HTTP addr=127.0.0.1:5000 sseURI=/sse msgURI=/message streamURI=/mcp''
        @ [CHR 0x0A],
      ''[mcp/server] BFF auth: memStore=yes authCookie=BFF-Auth-Session rehydrate=true''
        @ [CHR 0x0A]] \<and>
   \<not> srvDbg_once (startProcess (runes ''False '')) \<and>
   stdout (snd (HTTP exampleDeps exampleServer [] (startProcess (runes ''False '')))) = []"
proof -
  have fresh: "\<not> srvDbg_once (startProcess e)" for e
    by (simp add: startProcess_def)
  have hyp: "srvDbg_once (startProcess e) \<longrightarrow>
      srvDbg_v (startProcess e) = debugValue exampleDeps (MCP_DEBUG (startProcess e))" for e
    by (simp add: startProcess_def)
  have env: "MCP_DEBUG (startProcess e) = e" "stdout (startProcess e) = []" for e
    by (simp_all add: startProcess_def)
  have on: "stdout (snd (HTTP exampleDeps exampleServer [] (startProcess (runes '' TRUE '')))) =
     [''[mcp/server] HTTP addr=127.0.0.1:5000 sseURI=/sse msgURI=/message streamURI=/mcp''
        @ [CHR 0x0A],
      ''[mcp/server] BFF auth: memStore=yes authCookie=BFF-Auth-Session rehydrate=true''
        @ [CHR 0x0A]]"
    using startup_logging [where P = "startProcess (runes '' TRUE '')" and D = exampleDeps
        and s = exampleServer and a = "[]", OF hyp] debugValue_TRUE
    by (simp add: env debugValue_def Let_def resolveAddr_def defaultURIs_fields)
       (simp add: exampleServer_def)
  have off: "stdout (snd (HTTP exampleDeps exampleServer [] (startProcess (runes ''False '')))) = []"
    using startup_logging [where P = "startProcess (runes ''False '')" and D = exampleDeps
        and s = exampleServer and a = "[]", OF hyp] not_debugValue_False
    by (simp add: env debugValue_def Let_def)
  from fresh on off show ?thesis
    by blast
qed

section \<open>The Auth Grant Store: invariant and lifetimes\<close>

lemma storeInv_lookup:
  "storeInv st \<Longrightarrow> grants st gid = Some g \<Longrightarrow> grantID g = gid \<and> gid < nextId st"
  unfolding storeInv_def by (erule_tac x = gid in allE) simp

lemma storeInv_fresh:
  "storeInv st \<Longrightarrow> grants st (nextId st) = None"
  by (cases "grants st (nextId st)") (auto dest: storeInv_lookup)

lemma storeInv_openStore: "storeInv (openStore m)"
  by (cases m) (simp add: storeInv_def)

lemma storeInv_Create: "storeInv st \<Longrightarrow> storeInv (snd (Create st now subj ac rc))"
  unfolding storeInv_def Create_def Let_def
  by (auto split: option.splits simp: less_Suc_eq)

lemma storeInv_Activate: "storeInv st \<Longrightarrow> storeInv (snd (Activate st now gid))"
  unfolding storeInv_def Activate_def
  by (auto split: option.splits)

lemma storeInv_Refresh: "storeInv st \<Longrightarrow> storeInv (snd (Refresh st now gid))"
  unfolding storeInv_def Refresh_def Let_def
  by (auto split: option.splits)

lemma storeInv_Revoke: "storeInv st \<Longrightarrow> storeInv (snd (Revoke st gid))"
  unfolding storeInv_def Revoke_def
  by (auto split: option.splits)

lemma storeInv_Sweep: "storeInv st \<Longrightarrow> storeInv (Sweep st now)"
  unfolding storeInv_def Sweep_def
  by (auto split: option.splits)

lemma storeInv_call: "storeInv st \<Longrightarrow> storeInv (call st c)"
proof -
  assume inv: "storeInv st"
  obtain now k where c: "c = (now, k)"
    by (cases c)
  show ?thesis
    unfolding c
    by (cases k)
      (simp_all add: inv storeInv_Create storeInv_Activate storeInv_Refresh storeInv_Revoke
        storeInv_Sweep)
qed

lemma storeInv_calls: "storeInv st \<Longrightarrow> storeInv (calls st cs)"
  unfolding calls_def
  by (induction cs arbitrary: st) (simp_all add: storeInv_call)

lemma calls_Nil: "calls st [] = st"
  by (simp add: calls_def)

lemma calls_Cons: "calls st (c # cs) = calls (call st c) cs"
  by (simp add: calls_def)

text \<open>What a call leaves of a stored grant.\<close>

lemma call_grant:
  assumes "storeInv st" and "grants st gid = Some g"
  shows "(grants (call st c) gid = None \<and> snd c = CallSweep) \<or>
         (\<exists>g'. grants (call st c) gid = Some g' \<and>
            pendingExpiry g' = pendingExpiry g \<and> refreshExpiry g' = refreshExpiry g \<and>
            (state g = Revoked \<longrightarrow> state g' = Revoked))"
proof -
  obtain now k where c: "c = (now, k)"
    by (cases c)
  show ?thesis
  proof (cases k)
    case (CallCreate subj ac rc)
    from storeInv_lookup [OF assms] have "gid \<noteq> nextId st"
      by simp
    then show ?thesis
      by (simp add: c CallCreate Create_def Let_def assms(2))
  next
    case (CallActivate x)
    then show ?thesis
      by (cases "x = gid") (auto simp: c Activate_def assms(2) split: option.splits)
  next
    case (CallGet x)
    then show ?thesis
      by (simp add: c assms(2))
  next
    case (CallRefresh x)
    then show ?thesis
      by (cases "x = gid") (auto simp: c Refresh_def Let_def assms(2) split: option.splits)
  next
    case (CallRevoke x)
    then show ?thesis
      by (cases "x = gid") (auto simp: c Revoke_def assms(2) split: option.splits)
  next
    case CallSweep
    then show ?thesis
      by (simp add: c Sweep_def assms(2))
  qed
qed

lemma call_absent:
  assumes "storeInv st" and "grants st gid = None" and "gid < nextId st"
  shows "grants (call st c) gid = None \<and> gid < nextId (call st c)"
proof -
  obtain now k where c: "c = (now, k)"
    by (cases c)
  from assms(3) have "gid \<noteq> nextId st"
    by simp
  with assms(2,3) show ?thesis
    by (cases k)
      (auto simp: c Create_def Let_def Activate_def Refresh_def Revoke_def Sweep_def
        split: option.splits)
qed

lemma calls_absent:
  "storeInv st \<Longrightarrow> grants st gid = None \<Longrightarrow> gid < nextId st \<Longrightarrow>
   grants (calls st cs) gid = None"
proof (induction cs arbitrary: st)
  case Nil
  then show ?case by (simp add: calls_Nil)
next
  case (Cons c cs)
  from call_absent [OF Cons.prems] storeInv_call [OF Cons.prems(1)] Cons.IH
  show ?case
    by (simp add: calls_Cons)
qed

lemma calls_grant:
  "storeInv st \<Longrightarrow> grants st gid = Some g \<Longrightarrow>
   (grants (calls st cs) gid = None \<and> CallSweep \<in> snd ` set cs) \<or>
   (\<exists>g'. grants (calls st cs) gid = Some g' \<and>
      pendingExpiry g' = pendingExpiry g \<and> refreshExpiry g' = refreshExpiry g \<and>
      (state g = Revoked \<longrightarrow> state g' = Revoked))"
proof (induction cs arbitrary: st g)
  case Nil
  then show ?case by (simp add: calls_Nil)
next
  case (Cons c cs)
  note inv' = storeInv_call [OF Cons.prems(1), of c]
  from call_grant [OF Cons.prems, of c] show ?case
  proof (elim disjE conjE exE)
    assume gone: "grants (call st c) gid = None" and sweep: "snd c = CallSweep"
    from storeInv_lookup [OF Cons.prems] have "gid < nextId st"
      by simp
    moreover have "nextId st \<le> nextId (call st c)"
      using sweep by (cases c) (simp add: Sweep_def)
    ultimately have "gid < nextId (call st c)"
      by simp
    from calls_absent [OF inv' gone this] sweep show ?thesis
      by (force simp: calls_Cons)
  next
    fix g'
    assume g': "grants (call st c) gid = Some g'"
      and same: "pendingExpiry g' = pendingExpiry g" "refreshExpiry g' = refreshExpiry g"
        "state g = Revoked \<longrightarrow> state g' = Revoked"
    from Cons.IH [OF inv' g'] same show ?thesis
      by (auto simp: calls_Cons)
  qed
qed


lemma Create_result:
  assumes "Create st now subj ac rc = (g, st')"
  shows "grantID g = nextId st" and "state g = Pending"
    and "pendingExpiry g = now + pendingDuration st"
    and "accessExpiry g = now + accessDuration st"
    and "refreshExpiry g = now + refreshDuration st"
    and "grants st' (grantID g) = Some g"
    and "st' = snd (Create st now subj ac rc)"
  using assms by (auto simp: Create_def Let_def)

lemma call_durations:
  "pendingDuration (call st c) = pendingDuration st \<and>
   accessDuration (call st c) = accessDuration st \<and>
   refreshDuration (call st c) = refreshDuration st"
proof -
  obtain now k where c: "c = (now, k)"
    by (cases c)
  show ?thesis
    by (cases k)
      (auto simp: c Create_def Let_def Activate_def Refresh_def Revoke_def Sweep_def
        split: option.splits)
qed

lemma calls_durations:
  "pendingDuration (calls st cs) = pendingDuration st \<and>
   accessDuration (calls st cs) = accessDuration st \<and>
   refreshDuration (calls st cs) = refreshDuration st"
  by (induction cs arbitrary: st) (simp_all add: calls_Nil calls_Cons call_durations)

lemma HTTP_store:
  "defaultBFFAuthStore (snd (HTTP D s a P)) = Some m \<Longrightarrow>
   m = NewMemoryStore (30 * Minute) (24 * Hour) (2 * Minute)"
  by (simp add: HTTP_defaultBFFAuthStore memAuth_def)

lemma Revoke_result:
  assumes "Revoke st gid = (None, st')"
  shows "\<exists>g. grants st gid = Some g \<and> grants st' gid = Some (g\<lparr>state := Revoked\<rparr>) \<and>
     st' = snd (Revoke st gid)"
  using assms by (auto simp: Revoke_def split: option.splits)

lemma alice_store:
  "grants (calls (openStore memAuth) aliceCalls) 0 =
     Some \<lparr>grantID = 0, subject = ''alice'', accessCredential = ''access'',
           refreshCredential = ''refresh'', pendingExpiry = 120000000000,
           accessExpiry = 1800000000000, refreshExpiry = 86400000000000, state = Active\<rparr>"
  by (simp add: aliceCalls_def calls_def memAuth_def Create_def Activate_def Let_def
      Minute_def Hour_def Second_def)

lemma openStore_durations:
  "pendingDuration (openStore (NewMemoryStore ac rf pe)) = pe"
  "accessDuration (openStore (NewMemoryStore ac rf pe)) = ac"
  "refreshDuration (openStore (NewMemoryStore ac rf pe)) = rf"
  by simp_all

lemma aliceGrant_eq:
  "aliceGrant =
     \<lparr>grantID = 0, subject = ''alice'', accessCredential = ''access'',
      refreshCredential = ''refresh'', pendingExpiry = 2 * Minute,
      accessExpiry = 30 * Minute, refreshExpiry = 24 * Hour, state = Pending\<rparr>"
  by (simp add: aliceGrant_def memAuth_def Create_def Let_def)

lemma aliceStore_grants:
  "grants aliceStore = (\<lambda>gid. if gid = 0 then Some aliceGrant else None)"
  by (auto simp: aliceStore_def aliceGrant_def memAuth_def Create_def Let_def)

text \<open>
  Claim C5. Revocation is terminal: once \<^verbatim>\<open>Revoke\<close> has succeeded on a grant of a store,
  then after any sequence of further calls (creations, activations, reads, refreshes,
  revocations and sweeps, at any times) \<^verbatim>\<open>Get\<close>, \<^verbatim>\<open>Activate\<close> and \<^verbatim>\<open>Refresh\<close> on that
  identifier fail.
\<close>

theorem revocation_is_terminal:
  assumes "Revoke (calls (openStore m) before) gid = (None, st)"
  shows "(\<exists>e. Get (calls st after) now gid = Inl e) \<and>
         (\<exists>e. fst (Activate (calls st after) now gid) = Some e) \<and>
         (\<exists>e. fst (Refresh (calls st after) now gid) = Inl e)"
proof -
  from Revoke_result [OF assms] obtain g where
    g: "grants st gid = Some (g\<lparr>state := Revoked\<rparr>)" and
    st: "st = snd (Revoke (calls (openStore m) before) gid)"
    by blast
  have "storeInv st"
    unfolding st by (intro storeInv_Revoke storeInv_calls storeInv_openStore)
  from calls_grant [OF this g, of after]
  consider (gone) "grants (calls st after) gid = None"
    | (revoked) g' where "grants (calls st after) gid = Some g'" "state g' = Revoked"
    by auto
  then show ?thesis
  proof cases
    case gone
    then show ?thesis
      by (simp add: Get_def Activate_def Refresh_def)
  next
    case revoked
    then show ?thesis
      by (simp add: Get_def Activate_def Refresh_def)
  qed
qed

text \<open>
  A grant that is created, activated and revoked: after a refresh and an activation have
  been tried, the three calls fail.
\<close>

theorem revocation_is_terminal_witness:
  "fst (Revoke (calls (openStore memAuth) aliceCalls) 0) = None \<and>
   (\<exists>e. Get (calls (snd (Revoke (calls (openStore memAuth) aliceCalls) 0))
              [(100 * Second, CallRefresh 0), (101 * Second, CallActivate 0)])
           (102 * Second) 0 = Inl e) \<and>
   (\<exists>e. fst (Activate (calls (snd (Revoke (calls (openStore memAuth) aliceCalls) 0))
              [(100 * Second, CallRefresh 0), (101 * Second, CallActivate 0)])
           (102 * Second) 0) = Some e) \<and>
   (\<exists>e. fst (Refresh (calls (snd (Revoke (calls (openStore memAuth) aliceCalls) 0))
              [(100 * Second, CallRefresh 0), (101 * Second, CallActivate 0)])
           (102 * Second) 0) = Inl e)"
proof -
  have ok: "fst (Revoke (calls (openStore memAuth) aliceCalls) 0) = None"
    by (simp add: Revoke_def alice_store)
  then have "Revoke (calls (openStore memAuth) aliceCalls) 0 =
      (None, snd (Revoke (calls (openStore memAuth) aliceCalls) 0))"
    by (metis prod.collapse)
  from revocation_is_terminal [OF this] ok show ?thesis
    by blast
qed


text \<open>
  Claim C9. For a grant created at time 0 in the store that \<^verbatim>\<open>HTTP\<close> builds (2 minutes
  pending, 30 minutes access, 24 hours refresh), \<^verbatim>\<open>Activate\<close> succeeds at 90 seconds and
  makes the grant Active, and fails with Expired at 121 seconds, whether or not the
  activation at 90 seconds came before. In general, in any store, \<^verbatim>\<open>Activate\<close> called after
  the \<open>pendingExpiry\<close> of the grant stored under the identifier, if there is one, fails
  with NotFound or Expired.
\<close>

theorem activation_window:
  assumes "defaultBFFAuthStore (snd (HTTP D s a P)) = Some m"
    and "Create (calls (openStore m) before) 0 subj ac rc = (g, st)"
  shows "fst (Activate st (90 * Second) (grantID g)) = None \<and>
         (\<exists>g'. grants (snd (Activate st (90 * Second) (grantID g))) (grantID g) = Some g' \<and>
            state g' = Active) \<and>
         fst (Activate st (121 * Second) (grantID g)) = Some ErrExpired \<and>
         fst (Activate (snd (Activate st (90 * Second) (grantID g))) (121 * Second) (grantID g))
           = Some ErrExpired \<and>
         (\<forall>st' gid now. (\<forall>g'. grants st' gid = Some g' \<longrightarrow> pendingExpiry g' < now) \<longrightarrow>
            fst (Activate st' now gid) = Some ErrNotFound \<or>
            fst (Activate st' now gid) = Some ErrExpired)"
proof -
  note m = HTTP_store [OF assms(1)]
  note created = Create_result [OF assms(2)]
  have pending: "pendingExpiry g = 120 * Second"
    using created(3) calls_durations [of "openStore m" before] by (simp add: m Minute_def)
  note stored = created(6) and fresh = created(2)
  have first: "fst (Activate st (90 * Second) (grantID g)) = None \<and>
         (\<exists>g'. grants (snd (Activate st (90 * Second) (grantID g))) (grantID g) = Some g' \<and>
            state g' = Active)"
    by (simp add: Activate_def stored fresh pending Second_def)
  have late: "fst (Activate st (121 * Second) (grantID g)) = Some ErrExpired"
    by (simp add: Activate_def stored pending Second_def)
  have again: "fst (Activate (snd (Activate st (90 * Second) (grantID g))) (121 * Second) (grantID g))
           = Some ErrExpired"
    by (simp add: Activate_def stored fresh pending Second_def)
  have general: "fst (Activate st' now gid) = Some ErrNotFound \<or>
            fst (Activate st' now gid) = Some ErrExpired"
    if "\<forall>g'. grants st' gid = Some g' \<longrightarrow> pendingExpiry g' < now" for st' gid now
    using that by (cases "grants st' gid") (simp_all add: Activate_def)
  from first late again general show ?thesis
    by blast
qed

text \<open>The grant created at time 0 in the new store.\<close>

theorem activation_window_witness:
  "defaultBFFAuthStore (snd (HTTP exampleDeps exampleServer [] (startProcess []))) = Some memAuth \<and>
   Create (calls (openStore memAuth) []) 0 ''alice'' ''access'' ''refresh'' = (aliceGrant, aliceStore) \<and>
   fst (Activate aliceStore (90 * Second) (grantID aliceGrant)) = None \<and>
   fst (Activate aliceStore (121 * Second) (grantID aliceGrant)) = Some ErrExpired \<and>
   fst (Activate (snd (Activate aliceStore (90 * Second) (grantID aliceGrant))) (121 * Second)
          (grantID aliceGrant)) = Some ErrExpired"
proof -
  have store: "defaultBFFAuthStore (snd (HTTP exampleDeps exampleServer [] (startProcess []))) = Some memAuth"
    by (rule HTTP_defaultBFFAuthStore)
  have create: "Create (calls (openStore memAuth) []) 0 ''alice'' ''access'' ''refresh'' = (aliceGrant, aliceStore)"
    by (simp add: aliceGrant_def aliceStore_def calls_Nil)
  from activation_window [OF store create] store create show ?thesis
    by blast
qed

section \<open>The BFF auth cookie\<close>

lemma sse_config_returned:
  "sse_config (sse_New (sseOptions s)) =
     \<lparr>cfgAuthStore = Some memAuth,
      cfgBFFAuthCookie = Some \<lparr>Name = ''BFF-Auth-Session'', HttpOnly = True\<rparr>,
      cfgRehydrate = True\<rparr>"
  by (cases "sessionStore s") (simp_all add: sseOptions_def noConfig_def)

lemma streamable_config_returned:
  "streamable_config (streamable_New (streamableOptions s)) =
     \<lparr>cfgAuthStore = Some memAuth,
      cfgBFFAuthCookie = Some \<lparr>Name = ''BFF-Auth-Session'', HttpOnly = True\<rparr>,
      cfgRehydrate = True\<rparr>"
  by (cases "sessionStore s") (simp_all add: streamableOptions_def noConfig_def)

lemma HTTP_defaultBFFAuthCookieName:
  "defaultBFFAuthCookieName (snd (HTTP D s a P)) = Some ''BFF-Auth-Session''"
  by (simp add: HTTP_process logStartup_keeps SetDefaultBFFAuthCookieName_def)

lemma issueCookie_configured:
  "cfgBFFAuthCookie cfg = Some \<lparr>Name = n, HttpOnly = b\<rparr> \<Longrightarrow>
   issueCookie cfg g = Some \<lparr>cookieName = n, cookieValue = grantID g, cookieHttpOnly = b\<rparr>"
  by (simp add: issueCookie_def)

lemma handshake_rehydrates:
  assumes "cfgBFFAuthCookie cfg = Some \<lparr>Name = n, HttpOnly = b\<rparr>" and "cfgRehydrate cfg"
    and "Get st now (grantID g) = Inr g"
  shows "handshake cfg st now conn [\<lparr>cookieName = n, cookieValue = grantID g, cookieHttpOnly = b\<rparr>] =
     \<lparr>sessionID = conn, transportKind = LocalHTTP, boundGrant = Some g, lastActivity = now,
      viaCookie = True\<rparr>"
  using assms by (simp add: handshake_def)

text \<open>
  Claim C6. Whenever \<^verbatim>\<open>HTTP\<close> returns, the default cookie name of the process is
  BFF-Auth-Session, and both transports are configured with the cookie of that name,
  marked HttpOnly, with rehydration on handshake and with the store that \<^verbatim>\<open>HTTP\<close> has
  built. Under either configuration the cookie of a grant carries the identifier of the
  grant and does not change with the access or refresh credential; and a handshake on a
  new connection that presents the cookie of a grant which \<^verbatim>\<open>Get\<close> returns yields a session
  of that connection bound to that grant.
\<close>

theorem bff_auth_cookie:
  assumes "fst (HTTP D s a P) = Inr (srv, s')"
  shows "defaultBFFAuthCookieName (snd (HTTP D s a P)) = Some ''BFF-Auth-Session'' \<and>
    (\<exists>hs ht. sseHandler s' = Some hs \<and> streamingHandler s' = Some ht \<and>
       (\<forall>cfg. cfg = sse_config hs \<or> cfg = streamable_config ht \<longrightarrow>
          cfgBFFAuthCookie cfg = Some \<lparr>Name = ''BFF-Auth-Session'', HttpOnly = True\<rparr> \<and>
          cfgRehydrate cfg \<and>
          cfgAuthStore cfg = Some (NewMemoryStore (30 * Minute) (24 * Hour) (2 * Minute)) \<and>
          (\<forall>g. issueCookie cfg g =
                 Some \<lparr>cookieName = ''BFF-Auth-Session'', cookieValue = grantID g,
                       cookieHttpOnly = True\<rparr>) \<and>
          (\<forall>g ac rc. issueCookie cfg (g\<lparr>accessCredential := ac, refreshCredential := rc\<rparr>) =
                 issueCookie cfg g) \<and>
          (\<forall>st now conn g. Get st now (grantID g) = Inr g \<longrightarrow>
             handshake cfg st now conn
               [\<lparr>cookieName = ''BFF-Auth-Session'', cookieValue = grantID g,
                 cookieHttpOnly = True\<rparr>] =
             \<lparr>sessionID = conn, transportKind = LocalHTTP, boundGrant = Some g,
              lastActivity = now, viaCookie = True\<rparr>)))"
proof -
  note ret = HTTP_returns [OF assms]
  let ?cfg = "\<lparr>cfgAuthStore = Some memAuth,
      cfgBFFAuthCookie = Some \<lparr>Name = ''BFF-Auth-Session'', HttpOnly = True\<rparr>,
      cfgRehydrate = True\<rparr>"
  have hs: "sseHandler s' = Some (sse_New (sseOptions (defaultURIs s)))"
    and ht: "streamingHandler s' = Some (streamable_New (streamableOptions (defaultURIs s)))"
    by (simp_all add: ret(1) newHandlers_fields)
  have cfg: "cfgBFFAuthCookie ?cfg = Some \<lparr>Name = ''BFF-Auth-Session'', HttpOnly = True\<rparr>"
    "cfgRehydrate ?cfg"
    "cfgAuthStore ?cfg = Some (NewMemoryStore (30 * Minute) (24 * Hour) (2 * Minute))"
    by (simp_all add: memAuth_def)
  have cookie: "issueCookie ?cfg g =
      Some \<lparr>cookieName = ''BFF-Auth-Session'', cookieValue = grantID g, cookieHttpOnly = True\<rparr>"
    for g
    by (rule issueCookie_configured [OF cfg(1)])
  have blind: "issueCookie ?cfg (g\<lparr>accessCredential := ac, refreshCredential := rc\<rparr>) =
      issueCookie ?cfg g" for g ac rc
    by (simp add: cookie)
  have bind: "handshake ?cfg st now conn
               [\<lparr>cookieName = ''BFF-Auth-Session'', cookieValue = grantID g,
                 cookieHttpOnly = True\<rparr>] =
             \<lparr>sessionID = conn, transportKind = LocalHTTP, boundGrant = Some g,
              lastActivity = now, viaCookie = True\<rparr>"
    if "Get st now (grantID g) = Inr g" for st now conn g
    by (rule handshake_rehydrates [OF cfg(1,2) that])
  have both: "cfg = ?cfg"
    if "cfg = sse_config (sse_New (sseOptions (defaultURIs s))) \<or>
        cfg = streamable_config (streamable_New (streamableOptions (defaultURIs s)))" for cfg
    using that by (elim disjE) (simp_all only: sse_config_returned streamable_config_returned)
  show ?thesis
  proof (intro conjI exI allI impI)
    show "defaultBFFAuthCookieName (snd (HTTP D s a P)) = Some ''BFF-Auth-Session''"
      by (rule HTTP_defaultBFFAuthCookieName)
    show "sseHandler s' = Some (sse_New (sseOptions (defaultURIs s)))"
      by (rule hs)
    show "streamingHandler s' = Some (streamable_New (streamableOptions (defaultURIs s)))"
      by (rule ht)
  qed (use cfg cookie blind bind both in \<open>simp_all only:\<close>)
qed

text \<open>
  The server on which no option is set returns; the cookie of the grant created at time 0
  holds its identifier 0, and a handshake on connection 7 after 60 seconds binds the
  grant.
\<close>

theorem bff_auth_cookie_witness:
  "(\<exists>srv s'. fst (HTTP exampleDeps exampleServer [] (startProcess [])) = Inr (srv, s') \<and>
     (\<exists>hs. sseHandler s' = Some hs \<and>
        issueCookie (sse_config hs) aliceGrant =
          Some \<lparr>cookieName = ''BFF-Auth-Session'', cookieValue = 0, cookieHttpOnly = True\<rparr> \<and>
        Get aliceStore (60 * Second) (grantID aliceGrant) = Inr aliceGrant \<and>
        boundGrant (handshake (sse_config hs) aliceStore (60 * Second) 7
          [\<lparr>cookieName = ''BFF-Auth-Session'', cookieValue = 0, cookieHttpOnly = True\<rparr>])
          = Some aliceGrant))"
proof -
  obtain srv s' where
    ret: "fst (HTTP exampleDeps exampleServer [] (startProcess [])) = Inr (srv, s')"
    by (simp add: HTTP_result example_buildMux)
  have id: "grantID aliceGrant = 0"
    by (simp add: aliceGrant_eq)
  have get: "Get aliceStore (60 * Second) (grantID aliceGrant) = Inr aliceGrant"
    by (simp add: Get_def aliceStore_grants id) (simp add: aliceGrant_eq Hour_def Minute_def Second_def)
  from bff_auth_cookie [OF ret] obtain hs ht where
    hs: "sseHandler s' = Some hs" and
    ht: "streamingHandler s' = Some ht" and
    all: "\<forall>cfg. cfg = sse_config hs \<or> cfg = streamable_config ht \<longrightarrow>
          cfgBFFAuthCookie cfg = Some \<lparr>Name = ''BFF-Auth-Session'', HttpOnly = True\<rparr> \<and>
          cfgRehydrate cfg \<and>
          cfgAuthStore cfg = Some (NewMemoryStore (30 * Minute) (24 * Hour) (2 * Minute)) \<and>
          (\<forall>g. issueCookie cfg g =
                 Some \<lparr>cookieName = ''BFF-Auth-Session'', cookieValue = grantID g,
                       cookieHttpOnly = True\<rparr>) \<and>
          (\<forall>g ac rc. issueCookie cfg (g\<lparr>accessCredential := ac, refreshCredential := rc\<rparr>) =
                 issueCookie cfg g) \<and>
          (\<forall>st now conn g. Get st now (grantID g) = Inr g \<longrightarrow>
             handshake cfg st now conn
               [\<lparr>cookieName = ''BFF-Auth-Session'', cookieValue = grantID g,
                 cookieHttpOnly = True\<rparr>] =
             \<lparr>sessionID = conn, transportKind = LocalHTTP, boundGrant = Some g,
              lastActivity = now, viaCookie = True\<rparr>)"
    by (elim conjE exE)
  note sse = all [rule_format, of "sse_config hs", OF disjI1 [OF refl]]
  note cookie = sse [THEN conjunct2, THEN conjunct2, THEN conjunct2, THEN conjunct1, rule_format]
  note bind = sse [THEN conjunct2, THEN conjunct2, THEN conjunct2, THEN conjunct2,
      THEN conjunct2, rule_format]
  have issued: "issueCookie (sse_config hs) aliceGrant =
      Some \<lparr>cookieName = ''BFF-Auth-Session'', cookieValue = 0, cookieHttpOnly = True\<rparr>"
    using cookie [of aliceGrant] by (simp add: id)
  have bound: "boundGrant (handshake (sse_config hs) aliceStore (60 * Second) 7
          [\<lparr>cookieName = ''BFF-Auth-Session'', cookieValue = 0, cookieHttpOnly = True\<rparr>])
          = Some aliceGrant"
    using bind [OF get, of 7] by (simp add: id)
  from ret hs issued get bound show ?thesis
    by blast
qed

section \<open>One retry after a 401\<close>

lemma send_attempts: "length (snd (snd (send n R E ep subj k q))) \<le> Suc n"
proof (induction n arbitrary: E k q)
  case 0
  show ?case by simp
next
  case (Suc n)
  show ?case
  proof (cases "respond R k q = 401")
    case False
    then show ?thesis by simp
  next
    case True
    obtain res E1 where d: "discover R E ep = (res, E1)"
      by (cases "discover R E ep")
    show ?thesis
    proof (cases res)
      case (Inl e)
      with True d show ?thesis by simp
    next
      case (Inr md)
      show ?thesis
      proof (cases "acquire R md subj")
        case (Inl e)
        with True d Inr show ?thesis by simp
      next
        case tok: (Inr tok)
        from Suc.IH [of "E1\<lparr>tokens := (tokens E1)((ep, subj) := Some tok)\<rparr>" "Suc k"
            "q\<lparr>bearer := Some (tokenValue tok)\<rparr>"]
        show ?thesis
          using True d Inr tok by (simp add: Let_def)
      qed
    qed
  qed
qed

lemma send_first: "\<exists>rest. snd (snd (send n R E ep subj k q)) = q # rest"
  by (cases n) (auto simp: Let_def split: prod.splits sum.splits)

lemma send_once:
  "snd (snd (send (Suc 0) R E ep subj k q)) = [q1, q2] \<Longrightarrow>
   q1 = q \<and> respond R k q = 401 \<and>
   (\<exists>md E1 tok. discover R E ep = (Inr md, E1) \<and> acquire R md subj = Inr tok \<and>
      q2 = q\<lparr>bearer := Some (tokenValue tok)\<rparr>) \<and>
   fst (send (Suc 0) R E ep subj k q) =
     (if respond R (Suc k) q2 = 401 then Inl AcquisitionFailed else Inr (respond R (Suc k) q2))"
  by (auto simp: Let_def split: if_splits prod.splits sum.splits)

lemma send_fails:
  "\<forall>k x. respond R k x = 401 \<Longrightarrow> \<exists>e. fst (send n R E ep subj k q) = Inl e"
proof (induction n arbitrary: E k q)
  case 0
  then show ?case by simp
next
  case (Suc n)
  obtain res E1 where d: "discover R E ep = (res, E1)"
    by (cases "discover R E ep")
  show ?case
  proof (cases res)
    case (Inl e)
    with Suc.prems d show ?thesis by simp
  next
    case (Inr md)
    show ?thesis
    proof (cases "acquire R md subj")
      case (Inl e)
      with Suc.prems d Inr show ?thesis by simp
    next
      case tok: (Inr tok)
      from Suc.IH [OF Suc.prems, of "E1\<lparr>tokens := (tokens E1)((ep, subj) := Some tok)\<rparr>" "Suc k"
          "q\<lparr>bearer := Some (tokenValue tok)\<rparr>"]
      show ?thesis
        using Suc.prems d Inr tok by (simp add: Let_def)
    qed
  qed
qed

text \<open>
  Claim C3. A round trip sends at most two attempts, the first being the request as
  \<^verbatim>\<open>Authenticate\<close> leaves it. When it sends two, the first was answered 401, discovery and
  the acquisition flow succeeded, and the second is the same request with the new token
  attached; a 401 to the second is surfaced as AcquisitionFailed and not retried, and any
  other status is returned. Against a remote that answers 401 to everything the round
  trip ends in an authentication failure.
\<close>

lemma RoundTrip_send:
  "RoundTrip R E now ep subj q = send (Suc 0) R E ep subj 0 (Authenticate E now ep subj q)"
  by (simp only: RoundTrip_def One_nat_def)

theorem one_retry_after_401:
  "length (snd (snd (RoundTrip R E now ep subj q))) \<le> 2 \<and>
   (\<exists>rest. snd (snd (RoundTrip R E now ep subj q)) = Authenticate E now ep subj q # rest) \<and>
   (\<forall>q1 q2. snd (snd (RoundTrip R E now ep subj q)) = [q1, q2] \<longrightarrow>
      respond R 0 q1 = 401 \<and>
      (\<exists>md E1 tok. discover R E ep = (Inr md, E1) \<and> acquire R md subj = Inr tok \<and>
         q2 = q1\<lparr>bearer := Some (tokenValue tok)\<rparr>) \<and>
      (respond R 1 q2 = 401 \<longrightarrow> fst (RoundTrip R E now ep subj q) = Inl AcquisitionFailed) \<and>
      (respond R 1 q2 \<noteq> 401 \<longrightarrow> fst (RoundTrip R E now ep subj q) = Inr (respond R 1 q2))) \<and>
   ((\<forall>k x. respond R k x = 401) \<longrightarrow> (\<exists>e. fst (RoundTrip R E now ep subj q) = Inl e))"
proof -
  have bound: "length (snd (snd (RoundTrip R E now ep subj q))) \<le> 2"
    using send_attempts [of "Suc 0" R E ep subj 0 "Authenticate E now ep subj q"]
    by (simp only: RoundTrip_send)
  have first: "\<exists>rest. snd (snd (RoundTrip R E now ep subj q)) = Authenticate E now ep subj q # rest"
    unfolding RoundTrip_send by (rule send_first)
  have retry: "respond R 0 q1 = 401 \<and>
      (\<exists>md E1 tok. discover R E ep = (Inr md, E1) \<and> acquire R md subj = Inr tok \<and>
         q2 = q1\<lparr>bearer := Some (tokenValue tok)\<rparr>) \<and>
      (respond R 1 q2 = 401 \<longrightarrow> fst (RoundTrip R E now ep subj q) = Inl AcquisitionFailed) \<and>
      (respond R 1 q2 \<noteq> 401 \<longrightarrow> fst (RoundTrip R E now ep subj q) = Inr (respond R 1 q2))"
    if "snd (snd (RoundTrip R E now ep subj q)) = [q1, q2]" for q1 q2
  proof -
    let ?a = "Authenticate E now ep subj q"
    from that have "snd (snd (send (Suc 0) R E ep subj 0 ?a)) = [q1, q2]"
      by (simp only: RoundTrip_send)
    note once = send_once [OF this]
    note q1 = once [THEN conjunct1]
    note denied = once [THEN conjunct2, THEN conjunct1]
    note fresh = once [THEN conjunct2, THEN conjunct2, THEN conjunct1]
    note outcome = once [THEN conjunct2, THEN conjunct2, THEN conjunct2]
    show ?thesis
      unfolding RoundTrip_send q1 using denied fresh outcome
      by (simp del: send.simps)
  qed
  have closed: "\<exists>e. fst (RoundTrip R E now ep subj q) = Inl e"
    if "\<forall>k x. respond R k x = 401"
    unfolding RoundTrip_send by (rule send_fails [OF that])
  from bound first retry closed show ?thesis
    by blast
qed

text \<open>
  A remote that always answers 401, with working discovery and flow: two attempts, the
  second with the fresh token, and AcquisitionFailed.
\<close>

theorem one_retry_after_401_witness:
  "respond closedRemote 0 \<lparr>payload = ''ping'', bearer = None\<rparr> = 401 \<and>
   snd (snd (RoundTrip closedRemote emptyEngine 0 ''https://remote.example'' ''alice''
              \<lparr>payload = ''ping'', bearer = None\<rparr>)) =
     [\<lparr>payload = ''ping'', bearer = None\<rparr>, \<lparr>payload = ''ping'', bearer = Some ''fresh''\<rparr>] \<and>
   fst (RoundTrip closedRemote emptyEngine 0 ''https://remote.example'' ''alice''
              \<lparr>payload = ''ping'', bearer = None\<rparr>) = Inl AcquisitionFailed"
proof -
  let ?q = "\<lparr>payload = ''ping'', bearer = None\<rparr>"
  let ?run = "RoundTrip closedRemote emptyEngine 0 ''https://remote.example'' ''alice'' ?q"
  have attempts: "snd (snd ?run) = [?q, \<lparr>payload = ''ping'', bearer = Some ''fresh''\<rparr>]"
    by (simp add: RoundTrip_def Authenticate_def emptyEngine_def closedRemote_def discover_def
        Let_def)
  have denied: "respond closedRemote k x = 401" for k x
    by (simp add: closedRemote_def)
  from one_retry_after_401 [of closedRemote emptyEngine 0 "''https://remote.example''" "''alice''" ?q]
    attempts denied
  show ?thesis
    by auto
qed

end
